theory Spec2Isabelle
  imports Main "HOL-Library.Sublist"
begin

section \<open>Controller detection of simple2d (\<^verbatim>\<open>src/controllers.c\<close>)\<close>

text \<open>
  The file holds one function, \<^verbatim>\<open>S2D_DetectControllers\<close>. It asks SDL how many
  joysticks are attached, logs the number when it is positive, and then walks the device
  indices from 0 upwards: a device with SDL's game controller interface is opened as a
  controller, every other device as a raw joystick, and the outcome is logged.

  The function talks to two things outside the file: SDL's joystick subsystem and the
  logging of simple2d. Both are modelled as explicit state: the subsystem as a record
  holding the attached devices, the last error text and the handles that are open; the
  output as the list of everything the function has written, in order.
\<close>

subsection \<open>Formatting\<close>

text \<open>
  \<^verbatim>\<open>%i\<close> and \<^verbatim>\<open>%d\<close> print a C \<^verbatim>\<open>int\<close> in decimal, with a minus sign
  when it is negative. \<^verbatim>\<open>%s\<close> prints a string as it is. Strings are unbounded here:
  the size of the buffer \<^verbatim>\<open>S2D_msg\<close> is declared outside the file.
\<close>

fun dec_nat :: "nat \<Rightarrow> string" where
  "dec_nat n =
     (if n < 10 then [''0123456789'' ! n]
      else dec_nat (n div 10) @ [''0123456789'' ! (n mod 10)])"

declare dec_nat.simps [simp del]

definition fmt_int :: "int \<Rightarrow> string" where
  "fmt_int i = (if i < 0 then CHR ''-'' # dec_nat (nat (- i)) else dec_nat (nat i))"

subsection \<open>The joystick subsystem\<close>

text \<open>
  A device, as the subsystem sees it: whether it has the game controller interface, the
  name it declares as a controller, and whether opening it as a controller fails
  (\<open>Some e\<close>: the open returns \<^verbatim>\<open>NULL\<close> and the subsystem records the error
  text \<open>e\<close>); the same for opening it as a raw joystick, with the numbers of axes,
  buttons and balls the joystick reports.
\<close>

record device =
  game_controller :: bool
  controller_name :: string
  controller_fails :: "string option"
  joystick_name :: string
  num_axes :: int
  num_buttons :: int
  num_balls :: int
  joystick_fails :: "string option"

text \<open>
  A handle is the device index it was opened on together with the device it stands for;
  the C pointers \<^verbatim>\<open>SDL_GameController *\<close> and \<^verbatim>\<open>SDL_Joystick *\<close> are
  \<open>option\<close>s of these, \<open>None\<close> for \<^verbatim>\<open>NULL\<close>.
\<close>

type_synonym SDL_GameController = "int \<times> device"
type_synonym SDL_Joystick = "int \<times> device"

datatype handle = Controller_handle SDL_GameController | Joystick_handle SDL_Joystick

datatype open_call = Open_controller int | Open_joystick int

text \<open>
  The subsystem: the attached devices (index \<open>i\<close> is position \<open>i\<close> of the list), the
  text \<^verbatim>\<open>SDL_GetError\<close> returns, the text an open on an index without a device
  records, every open call made so far, and the handles that are open.
\<close>

record sdl =
  devices :: "device list"
  last_error :: string
  index_error :: string
  open_calls :: "open_call list"
  open_handles :: "handle list"

text \<open>
  The SDL calls the function makes. SDL is not part of the repository; the definitions
  follow its interface: the count is the number of attached devices, an index outside
  the list has no controller interface and cannot be opened, a failed open returns
  \<^verbatim>\<open>NULL\<close> and sets the error text, a successful open returns a handle, which is
  then open. Left out are a negative count, SDL's error return, for which the source
  writes no summary and does not enter the loop, and a device without a name.
\<close>

definition device_at :: "sdl \<Rightarrow> int \<Rightarrow> device option" where
  "device_at s i =
     (if 0 \<le> i \<and> i < int (length (devices s)) then Some (devices s ! nat i) else None)"

definition SDL_NumJoysticks :: "sdl \<Rightarrow> int" where
  "SDL_NumJoysticks s = int (length (devices s))"

definition SDL_IsGameController :: "sdl \<Rightarrow> int \<Rightarrow> bool" where
  "SDL_IsGameController s i =
     (case device_at s i of None \<Rightarrow> False | Some d \<Rightarrow> game_controller d)"

definition SDL_GetError :: "sdl \<Rightarrow> string" where
  "SDL_GetError s = last_error s"

definition SDL_GameControllerOpen :: "int \<Rightarrow> sdl \<Rightarrow> SDL_GameController option \<times> sdl" where
  "SDL_GameControllerOpen i s =
     (let s1 = s\<lparr>open_calls := open_calls s @ [Open_controller i]\<rparr> in
      case device_at s i of
        None \<Rightarrow> (None, s1\<lparr>last_error := index_error s\<rparr>)
      | Some d \<Rightarrow>
          (case controller_fails d of
             Some e \<Rightarrow> (None, s1\<lparr>last_error := e\<rparr>)
           | None \<Rightarrow>
               (Some (i, d),
                s1\<lparr>open_handles := open_handles s @ [Controller_handle (i, d)]\<rparr>)))"

definition SDL_JoystickOpen :: "int \<Rightarrow> sdl \<Rightarrow> SDL_Joystick option \<times> sdl" where
  "SDL_JoystickOpen i s =
     (let s1 = s\<lparr>open_calls := open_calls s @ [Open_joystick i]\<rparr> in
      case device_at s i of
        None \<Rightarrow> (None, s1\<lparr>last_error := index_error s\<rparr>)
      | Some d \<Rightarrow>
          (case joystick_fails d of
             Some e \<Rightarrow> (None, s1\<lparr>last_error := e\<rparr>)
           | None \<Rightarrow>
               (Some (i, d),
                s1\<lparr>open_handles := open_handles s @ [Joystick_handle (i, d)]\<rparr>)))"

definition SDL_GameControllerName :: "SDL_GameController \<Rightarrow> string" where
  "SDL_GameControllerName c = controller_name (snd c)"

definition SDL_JoystickName :: "SDL_Joystick \<Rightarrow> string" where
  "SDL_JoystickName j = joystick_name (snd j)"

definition SDL_JoystickNumAxes :: "SDL_Joystick \<Rightarrow> int" where
  "SDL_JoystickNumAxes j = num_axes (snd j)"

definition SDL_JoystickNumButtons :: "SDL_Joystick \<Rightarrow> int" where
  "SDL_JoystickNumButtons j = num_buttons (snd j)"

definition SDL_JoystickNumBalls :: "SDL_Joystick \<Rightarrow> int" where
  "SDL_JoystickNumBalls j = num_balls (snd j)"

subsection \<open>Output\<close>

text \<open>
  The function writes in two ways: it calls \<^verbatim>\<open>S2D_Log\<close> with a message and a
  severity, and it calls \<^verbatim>\<open>printf\<close>. The output is the list of these writes.
\<close>

text \<open>
  Modelled from the spec: the severities are macros of \<^verbatim>\<open>simple2d.h\<close>, which is not
  among the sources. The spec names the two levels the function uses, info and error.
\<close>

datatype severity = S2D_INFO | S2D_ERROR

datatype event = Log string severity | Stdout string

text \<open>
  The state the function works on: the subsystem, the global message buffer
  \<^verbatim>\<open>S2D_msg\<close> that every \<^verbatim>\<open>sprintf\<close> of the source writes and every
  \<^verbatim>\<open>S2D_Log\<close> call reads, and the output so far.
\<close>

record state =
  sdl_of :: sdl
  S2D_msg :: string
  out :: "event list"

definition sprintf :: "string \<Rightarrow> state \<Rightarrow> state" where
  "sprintf text st = st\<lparr>S2D_msg := text\<rparr>"

text \<open>
  Modelled from the spec: \<^verbatim>\<open>S2D_Log\<close> is declared in \<^verbatim>\<open>simple2d.h\<close> and defined
  outside this file. The spec gives it as a logging sink taking a message and a severity
  level; a call hands the sink one line.
\<close>

definition S2D_Log :: "string \<Rightarrow> severity \<Rightarrow> state \<Rightarrow> state" where
  "S2D_Log msg type st = st\<lparr>out := out st @ [Log msg type]\<rparr>"

definition printf :: "string \<Rightarrow> state \<Rightarrow> state" where
  "printf text st = st\<lparr>out := out st @ [Stdout text]\<rparr>"

subsection \<open>\<^verbatim>\<open>S2D_DetectControllers\<close>\<close>

text \<open>The body of the \<^verbatim>\<open>for\<close> loop at index \<open>i\<close> (lines 23 to 54).\<close>

definition loop_body :: "int \<Rightarrow> state \<Rightarrow> state" where
  "loop_body i st =
     (if SDL_IsGameController (sdl_of st) i then
        (case SDL_GameControllerOpen i (sdl_of st) of
           (controller, s1) \<Rightarrow>
             (let st1 = st\<lparr>sdl_of := s1\<rparr> in
              case controller of
                Some c \<Rightarrow>
                  (let st2 = sprintf (''Controller #'' @ fmt_int i @ '': ''
                                        @ SDL_GameControllerName c @ [CHR 0x0A]) st1
                   in S2D_Log (S2D_msg st2) S2D_INFO st2)
              | None \<Rightarrow>
                  (let st2 = sprintf (''Could not open controller #'' @ fmt_int i @ '': ''
                                        @ SDL_GetError (sdl_of st1) @ [CHR 0x0A]) st1
                   in S2D_Log (S2D_msg st2) S2D_ERROR st2)))
      else
        (let st1 = sprintf (''Generic controller #'' @ fmt_int i) st;
             st2 = S2D_Log (S2D_msg st1) S2D_INFO st1
         in case SDL_JoystickOpen i (sdl_of st2) of
              (joy, s3) \<Rightarrow>
                (let st3 = st2\<lparr>sdl_of := s3\<rparr> in
                 case joy of
                   Some j \<Rightarrow>
                     printf (''      Name: '' @ SDL_JoystickName j @ [CHR 0x0A]
                             @ ''      Axes: '' @ fmt_int (SDL_JoystickNumAxes j) @ [CHR 0x0A]
                             @ ''      Buttons: '' @ fmt_int (SDL_JoystickNumButtons j) @ [CHR 0x0A]
                             @ ''      Balls: '' @ fmt_int (SDL_JoystickNumBalls j) @ [CHR 0x0A]) st3
                 | None \<Rightarrow>
                     (let st4 = sprintf (''Could not open generic controller #'' @ fmt_int i) st3
                      in S2D_Log (S2D_msg st4) S2D_ERROR st4))))"

lemma loop_body_devices: "devices (sdl_of (loop_body i st)) = devices (sdl_of st)"
  by (simp add: loop_body_def SDL_GameControllerOpen_def SDL_JoystickOpen_def sprintf_def
      S2D_Log_def printf_def Let_def split: option.splits prod.splits)

text \<open>
  The loop \<^verbatim>\<open>for (int i = 0; i < SDL_NumJoysticks(); ++i)\<close>, entered at index \<open>i\<close>.
  The count is read again before every iteration, as in the source. The index is an
  unbounded integer here: in C both it and the count are \<^verbatim>\<open>int\<close>, and an index that
  never passes the count cannot overflow.
\<close>

function enumerate_from :: "int \<Rightarrow> state \<Rightarrow> state" where
  "enumerate_from i st =
     (if i < SDL_NumJoysticks (sdl_of st) then enumerate_from (i + 1) (loop_body i st)
      else st)"
  by pat_completeness auto
termination
  by (relation "measure (\<lambda>(i, st). nat (SDL_NumJoysticks (sdl_of st) - i))")
     (simp_all add: SDL_NumJoysticks_def loop_body_devices)

declare enumerate_from.simps [simp del]

definition S2D_DetectControllers :: "state \<Rightarrow> state" where
  "S2D_DetectControllers st =
     (let st1 =
        (if SDL_NumJoysticks (sdl_of st) > 0 then
           (let st0 = sprintf (''Controllers detected: ''
                                 @ fmt_int (SDL_NumJoysticks (sdl_of st))) st
            in S2D_Log (S2D_msg st0) S2D_INFO st0)
         else st)
      in enumerate_from 0 st1)"

subsection \<open>The lines the function writes\<close>

text \<open>
  The texts of the five format strings of the source, as functions of what is printed
  into them, and of the summary line written before the loop.
\<close>

definition controller_line :: "int \<Rightarrow> device \<Rightarrow> string" where
  "controller_line i d = ''Controller #'' @ fmt_int i @ '': '' @ controller_name d @ [CHR 0x0A]"

definition controller_error_line :: "int \<Rightarrow> string \<Rightarrow> string" where
  "controller_error_line i e = ''Could not open controller #'' @ fmt_int i @ '': '' @ e @ [CHR 0x0A]"

definition generic_line :: "int \<Rightarrow> string" where
  "generic_line i = ''Generic controller #'' @ fmt_int i"

definition details :: "device \<Rightarrow> string" where
  "details d =
     ''      Name: '' @ joystick_name d @ [CHR 0x0A]
     @ ''      Axes: '' @ fmt_int (num_axes d) @ [CHR 0x0A]
     @ ''      Buttons: '' @ fmt_int (num_buttons d) @ [CHR 0x0A]
     @ ''      Balls: '' @ fmt_int (num_balls d) @ [CHR 0x0A]"

definition generic_error_line :: "int \<Rightarrow> string" where
  "generic_error_line i = ''Could not open generic controller #'' @ fmt_int i"

text \<open>
  What the spec says the function does for the device \<open>d\<close> at index \<open>i\<close>: a device with
  the controller interface gives one line, its name at info severity when the open
  succeeds and the error text at error severity when it fails; any other device gives the
  generic line at info severity and then the details of the joystick, or an error line.
  \<open>device_handles\<close> and \<open>device_call\<close> are the handle the device leaves open and the
  one open call made for it.
\<close>

definition device_report :: "int \<Rightarrow> device \<Rightarrow> event list" where
  "device_report i d =
     (if game_controller d then
        (case controller_fails d of
           None \<Rightarrow> [Log (controller_line i d) S2D_INFO]
         | Some e \<Rightarrow> [Log (controller_error_line i e) S2D_ERROR])
      else
        [Log (generic_line i) S2D_INFO,
         (case joystick_fails d of
            None \<Rightarrow> Stdout (details d)
          | Some e \<Rightarrow> Log (generic_error_line i) S2D_ERROR)])"

definition device_handles :: "int \<Rightarrow> device \<Rightarrow> handle list" where
  "device_handles i d =
     (if game_controller d then
        (case controller_fails d of None \<Rightarrow> [Controller_handle (i, d)] | Some e \<Rightarrow> [])
      else
        (case joystick_fails d of None \<Rightarrow> [Joystick_handle (i, d)] | Some e \<Rightarrow> []))"

definition device_call :: "int \<Rightarrow> device \<Rightarrow> open_call" where
  "device_call i d = (if game_controller d then Open_controller i else Open_joystick i)"

text \<open>
  The output of a whole run over the device list \<open>ds\<close>: the summary when there is a
  device, then the reports of the devices from index \<open>k\<close> on, in the order of the list.
\<close>

definition summary_line :: "int \<Rightarrow> string" where
  "summary_line n = ''Controllers detected: '' @ fmt_int n"

definition summary :: "device list \<Rightarrow> event list" where
  "summary ds = (if 0 < length ds then [Log (summary_line (int (length ds))) S2D_INFO] else [])"

definition reports :: "nat \<Rightarrow> device list \<Rightarrow> event list" where
  "reports k ds = concat (map (\<lambda>j. device_report (int j) (ds ! j)) [k..<length ds])"

text \<open>The reports of the devices before index \<open>k\<close>.\<close>

definition reports_before :: "nat \<Rightarrow> device list \<Rightarrow> event list" where
  "reports_before k ds = concat (map (\<lambda>j. device_report (int j) (ds ! j)) [0..<k])"

text \<open>
  The handles a run leaves open and the open calls it makes, from index \<open>k\<close> on; the
  index an open call was made on.
\<close>

definition handles_opened :: "nat \<Rightarrow> device list \<Rightarrow> handle list" where
  "handles_opened k ds = concat (map (\<lambda>j. device_handles (int j) (ds ! j)) [k..<length ds])"

definition calls_made :: "nat \<Rightarrow> device list \<Rightarrow> open_call list" where
  "calls_made k ds = map (\<lambda>j. device_call (int j) (ds ! j)) [k..<length ds]"

fun call_index :: "open_call \<Rightarrow> int" where
  "call_index (Open_controller i) = i"
| "call_index (Open_joystick i) = i"

text \<open>
  Reading an output: the messages logged at one severity, the texts written with
  \<^verbatim>\<open>printf\<close>, and what a run from \<open>st\<close> to \<open>st'\<close> has added to the output.
\<close>

fun log_lines :: "severity \<Rightarrow> event list \<Rightarrow> string list" where
  "log_lines t [] = []"
| "log_lines t (Log m t' # es) = (if t' = t then m # log_lines t es else log_lines t es)"
| "log_lines t (Stdout x # es) = log_lines t es"

fun stdout_texts :: "event list \<Rightarrow> string list" where
  "stdout_texts [] = []"
| "stdout_texts (Log m t # es) = stdout_texts es"
| "stdout_texts (Stdout x # es) = x # stdout_texts es"

definition emitted :: "state \<Rightarrow> state \<Rightarrow> event list" where
  "emitted st st' = drop (length (out st)) (out st')"

subsection \<open>Devices, outcomes and runs\<close>

text \<open>A device with the controller interface whose controller open succeeds.\<close>

definition opens_as_controller :: "device \<Rightarrow> bool" where
  "opens_as_controller d = (game_controller d \<and> controller_fails d = None)"

text \<open>A device that is opened as a raw joystick, with success.\<close>

definition joystick_opens :: "device \<Rightarrow> bool" where
  "joystick_opens d = (\<not> game_controller d \<and> joystick_fails d = None)"

text \<open>
  The outcome of the one open made for a device, \<open>None\<close> when it succeeds and the
  error text when it fails, and the handle a successful open gives.
\<close>

definition open_outcome :: "device \<Rightarrow> string option" where
  "open_outcome d = (if game_controller d then controller_fails d else joystick_fails d)"

definition device_handle :: "int \<Rightarrow> device \<Rightarrow> handle" where
  "device_handle i d =
     (if game_controller d then Controller_handle (i, d) else Joystick_handle (i, d))"

text \<open>The open calls and the handles a run from \<open>st\<close> to \<open>st'\<close> has added.\<close>

definition new_calls :: "state \<Rightarrow> state \<Rightarrow> open_call list" where
  "new_calls st st' = drop (length (open_calls (sdl_of st))) (open_calls (sdl_of st'))"

definition new_handles :: "state \<Rightarrow> state \<Rightarrow> handle list" where
  "new_handles st st' = drop (length (open_handles (sdl_of st))) (open_handles (sdl_of st'))"

text \<open>
  \<open>with_device i d st\<close> is \<open>st\<close> with the device \<open>d\<close> attached at index \<open>i\<close> in place
  of the one that was there.
\<close>

definition with_device :: "int \<Rightarrow> device \<Rightarrow> state \<Rightarrow> state" where
  "with_device i d st =
     st\<lparr>sdl_of := (sdl_of st)\<lparr>devices := (devices (sdl_of st))[nat i := d]\<rparr>\<rparr>"

text \<open>The state in which the loop starts: the summary is written, or nothing is.\<close>

definition after_summary :: "state \<Rightarrow> state" where
  "after_summary st =
     (if 0 < length (devices (sdl_of st))
      then st\<lparr>S2D_msg := summary_line (int (length (devices (sdl_of st)))),
              out := out st @ summary (devices (sdl_of st))\<rparr>
      else st)"

text \<open>
  The state of a run of the function when the loop reaches index \<open>k\<close>: the summary
  step, then the loop body for the indices before \<open>k\<close>.
\<close>

definition run_to :: "nat \<Rightarrow> state \<Rightarrow> state" where
  "run_to k st = fold loop_body (map int [0..<k]) (after_summary st)"

subsection \<open>Example devices\<close>

text \<open>
  Two controllers that open, one whose open fails, a raw joystick that opens and one
  whose open fails; \<open>start ds\<close> is a fresh subsystem with the devices \<open>ds\<close> attached and
  nothing written yet.
\<close>

definition pad :: device where
  "pad = \<lparr>game_controller = True, controller_name = ''Pad'', controller_fails = None,
          joystick_name = ''Pad (raw)'', num_axes = 6, num_buttons = 11, num_balls = 0,
          joystick_fails = None\<rparr>"

definition busy_pad :: device where
  "busy_pad = pad\<lparr>controller_fails := Some ''Device busy''\<rparr>"

definition stick :: device where
  "stick = \<lparr>game_controller = False, controller_name = [], controller_fails = Some ''Not a controller'',
          joystick_name = ''Flight Stick'', num_axes = 3, num_buttons = 12, num_balls = 1,
          joystick_fails = None\<rparr>"

definition busy_stick :: device where
  "busy_stick = stick\<lparr>joystick_fails := Some ''Device busy''\<rparr>"

definition pad2 :: device where
  "pad2 = pad\<lparr>controller_name := ''Arcade Stick''\<rparr>"

definition start :: "device list \<Rightarrow> state" where
  "start ds =
     \<lparr>sdl_of = \<lparr>devices = ds, last_error = [], index_error = ''No such device'',
                open_calls = [], open_handles = []\<rparr>,
      S2D_msg = [], out = []\<rparr>"

subsection \<open>One iteration, and the loop as a whole\<close>

lemmas body_defs = loop_body_def SDL_IsGameController_def SDL_GameControllerOpen_def
  SDL_JoystickOpen_def SDL_GetError_def SDL_GameControllerName_def SDL_JoystickName_def
  SDL_JoystickNumAxes_def SDL_JoystickNumButtons_def SDL_JoystickNumBalls_def
  sprintf_def S2D_Log_def printf_def Let_def

lemmas line_defs = controller_line_def controller_error_line_def generic_line_def
  details_def generic_error_line_def

lemma dec_nat_digit: "n < 10 \<Longrightarrow> dec_nat n = [''0123456789'' ! n]"
  by (simp add: dec_nat.simps)

lemma loop_body_out:
  "device_at (sdl_of st) i = Some d \<Longrightarrow> out (loop_body i st) = out st @ device_report i d"
  by (simp add: body_defs line_defs device_report_def split: option.splits)

lemma loop_body_handles:
  "device_at (sdl_of st) i = Some d \<Longrightarrow>
   open_handles (sdl_of (loop_body i st)) = open_handles (sdl_of st) @ device_handles i d"
  by (simp add: body_defs device_handles_def split: option.splits)

lemma loop_body_calls:
  "device_at (sdl_of st) i = Some d \<Longrightarrow>
   open_calls (sdl_of (loop_body i st)) = open_calls (sdl_of st) @ [device_call i d]"
  by (simp add: body_defs device_call_def split: option.splits)

lemma device_at_nat:
  "k < length (devices s) \<Longrightarrow> device_at s (int k) = Some (devices s ! k)"
  by (simp add: device_at_def)

lemma open_results:
  assumes "device_at s i = Some d"
  shows "SDL_IsGameController s i = game_controller d"
    and "fst (SDL_GameControllerOpen i s)
           = (case controller_fails d of None \<Rightarrow> Some (i, d) | Some e \<Rightarrow> None)"
    and "fst (SDL_JoystickOpen i s)
           = (case joystick_fails d of None \<Rightarrow> Some (i, d) | Some e \<Rightarrow> None)"
  using assms
  by (simp_all add: SDL_IsGameController_def SDL_GameControllerOpen_def SDL_JoystickOpen_def
      Let_def split: option.splits)

lemma enumerate_from_step:
  "k < length (devices (sdl_of st)) \<Longrightarrow>
   enumerate_from (int k) st = enumerate_from (int (Suc k)) (loop_body (int k) st)"
  by (subst enumerate_from.simps) (simp add: SDL_NumJoysticks_def add.commute)

lemma enumerate_from_stop:
  "length (devices (sdl_of st)) \<le> k \<Longrightarrow> enumerate_from (int k) st = st"
  by (subst enumerate_from.simps) (simp add: SDL_NumJoysticks_def)

lemma enumerate_from_fold:
  "k \<le> length (devices (sdl_of st)) \<Longrightarrow>
   enumerate_from (int k) st = fold loop_body (map int [k..<length (devices (sdl_of st))]) st"
proof (induction "length (devices (sdl_of st)) - k" arbitrary: k st)
  case 0
  then show ?case by (simp add: enumerate_from_stop)
next
  case (Suc m)
  then have lt: "k < length (devices (sdl_of st))" by simp
  have "enumerate_from (int k) st = enumerate_from (int (Suc k)) (loop_body (int k) st)"
    using lt by (rule enumerate_from_step)
  also have "\<dots> = fold loop_body (map int [Suc k..<length (devices (sdl_of st))]) (loop_body (int k) st)"
    using Suc.hyps(1)[of "loop_body (int k) st" "Suc k"] Suc.hyps(2) lt
    by (simp add: loop_body_devices)
  finally show ?case using lt by (simp add: upt_conv_Cons)
qed

lemma enumerate_from_devices:
  "devices (sdl_of (enumerate_from i st)) = devices (sdl_of st)"
  by (induction i st rule: enumerate_from.induct)
     (subst enumerate_from.simps, simp add: loop_body_devices)

lemma enumerate_from_out:
  "k \<le> length (devices (sdl_of st)) \<Longrightarrow>
   out (enumerate_from (int k) st) = out st @ reports k (devices (sdl_of st))"
proof (induction "length (devices (sdl_of st)) - k" arbitrary: k st)
  case 0
  then show ?case by (simp add: enumerate_from_stop reports_def)
next
  case (Suc m)
  then have lt: "k < length (devices (sdl_of st))" by simp
  have "out (enumerate_from (int (Suc k)) (loop_body (int k) st))
        = out (loop_body (int k) st) @ reports (Suc k) (devices (sdl_of st))"
    using Suc.hyps(1)[of "loop_body (int k) st" "Suc k"] Suc.hyps(2) lt
    by (simp add: loop_body_devices)
  then show ?case
    using lt by (simp add: enumerate_from_step loop_body_out device_at_nat reports_def upt_conv_Cons)
qed

lemma enumerate_from_handles:
  "k \<le> length (devices (sdl_of st)) \<Longrightarrow>
   open_handles (sdl_of (enumerate_from (int k) st))
     = open_handles (sdl_of st) @ handles_opened k (devices (sdl_of st))"
proof (induction "length (devices (sdl_of st)) - k" arbitrary: k st)
  case 0
  then show ?case by (simp add: enumerate_from_stop handles_opened_def)
next
  case (Suc m)
  then have lt: "k < length (devices (sdl_of st))" by simp
  have "open_handles (sdl_of (enumerate_from (int (Suc k)) (loop_body (int k) st)))
        = open_handles (sdl_of (loop_body (int k) st)) @ handles_opened (Suc k) (devices (sdl_of st))"
    using Suc.hyps(1)[of "loop_body (int k) st" "Suc k"] Suc.hyps(2) lt
    by (simp add: loop_body_devices)
  then show ?case
    using lt by (simp add: enumerate_from_step loop_body_handles device_at_nat
        handles_opened_def upt_conv_Cons)
qed

lemma enumerate_from_calls:
  "k \<le> length (devices (sdl_of st)) \<Longrightarrow>
   open_calls (sdl_of (enumerate_from (int k) st))
     = open_calls (sdl_of st) @ calls_made k (devices (sdl_of st))"
proof (induction "length (devices (sdl_of st)) - k" arbitrary: k st)
  case 0
  then show ?case by (simp add: enumerate_from_stop calls_made_def)
next
  case (Suc m)
  then have lt: "k < length (devices (sdl_of st))" by simp
  have "open_calls (sdl_of (enumerate_from (int (Suc k)) (loop_body (int k) st)))
        = open_calls (sdl_of (loop_body (int k) st)) @ calls_made (Suc k) (devices (sdl_of st))"
    using Suc.hyps(1)[of "loop_body (int k) st" "Suc k"] Suc.hyps(2) lt
    by (simp add: loop_body_devices)
  then show ?case
    using lt by (simp add: enumerate_from_step loop_body_calls device_at_nat
        calls_made_def upt_conv_Cons)
qed

lemma enumerate_from_at:
  assumes "device_at (sdl_of st) i = Some d"
  shows "enumerate_from i st = enumerate_from (i + 1) (loop_body i st)"
    and "out (enumerate_from i st)
           = out st @ device_report i d @ reports (Suc (nat i)) (devices (sdl_of st))"
proof -
  from assms have range: "0 \<le> i" "i < int (length (devices (sdl_of st)))"
    by (auto simp: device_at_def split: if_splits)
  show step: "enumerate_from i st = enumerate_from (i + 1) (loop_body i st)"
    using range by (subst enumerate_from.simps) (simp add: SDL_NumJoysticks_def)
  have nxt: "int (Suc (nat i)) = i + 1" using range by simp
  have "Suc (nat i) \<le> length (devices (sdl_of (loop_body i st)))"
    using range by (simp add: loop_body_devices)
  from enumerate_from_out[OF this, unfolded nxt loop_body_devices]
  show "out (enumerate_from i st)
           = out st @ device_report i d @ reports (Suc (nat i)) (devices (sdl_of st))"
    by (simp only: step loop_body_out[OF assms] append_assoc)
qed

lemma detect_unfold: "S2D_DetectControllers st = enumerate_from 0 (after_summary st)"
  by (simp add: S2D_DetectControllers_def after_summary_def SDL_NumJoysticks_def
      sprintf_def S2D_Log_def summary_def summary_line_def Let_def)

lemma after_summary_sdl: "sdl_of (after_summary st) = sdl_of st"
  by (simp add: after_summary_def)

lemma after_summary_out: "out (after_summary st) = out st @ summary (devices (sdl_of st))"
  by (simp add: after_summary_def summary_def)

lemma detect_out:
  "out (S2D_DetectControllers st)
     = out st @ summary (devices (sdl_of st)) @ reports 0 (devices (sdl_of st))"
  using enumerate_from_out[of 0 "after_summary st"]
  by (simp add: detect_unfold after_summary_sdl after_summary_out)

lemma detect_handles:
  "open_handles (sdl_of (S2D_DetectControllers st))
     = open_handles (sdl_of st) @ handles_opened 0 (devices (sdl_of st))"
  using enumerate_from_handles[of 0 "after_summary st"]
  by (simp add: detect_unfold after_summary_sdl)

lemma detect_calls:
  "open_calls (sdl_of (S2D_DetectControllers st))
     = open_calls (sdl_of st) @ calls_made 0 (devices (sdl_of st))"
  using enumerate_from_calls[of 0 "after_summary st"]
  by (simp add: detect_unfold after_summary_sdl)

lemma detect_devices: "devices (sdl_of (S2D_DetectControllers st)) = devices (sdl_of st)"
  by (simp add: detect_unfold enumerate_from_devices after_summary_sdl)

lemma detect_new_calls:
  "new_calls st (S2D_DetectControllers st) = calls_made 0 (devices (sdl_of st))"
  by (simp add: new_calls_def detect_calls)

lemma detect_new_handles:
  "new_handles st (S2D_DetectControllers st) = handles_opened 0 (devices (sdl_of st))"
  by (simp add: new_handles_def detect_handles)

lemma emitted_append: "out st' = out st @ evs \<Longrightarrow> emitted st st' = evs"
  by (simp add: emitted_def)

lemma detect_emitted:
  "emitted st (S2D_DetectControllers st)
     = summary (devices (sdl_of st)) @ reports 0 (devices (sdl_of st))"
  by (rule emitted_append) (rule detect_out)

lemma loop_body_emitted:
  "device_at (sdl_of st) i = Some d \<Longrightarrow> emitted st (loop_body i st) = device_report i d"
  by (rule emitted_append) (rule loop_body_out)

lemma log_lines_append: "log_lines t (xs @ ys) = log_lines t xs @ log_lines t ys"
  by (induction t xs rule: log_lines.induct) simp_all

lemma stdout_texts_append: "stdout_texts (xs @ ys) = stdout_texts xs @ stdout_texts ys"
  by (induction xs rule: stdout_texts.induct) simp_all

lemma log_lines_concat: "log_lines t (concat xss) = concat (map (log_lines t) xss)"
  by (induction xss) (simp_all add: log_lines_append)

lemma stdout_texts_concat: "stdout_texts (concat xss) = concat (map stdout_texts xss)"
  by (induction xss) (simp_all add: stdout_texts_append)

lemmas example_defs = pad_def pad2_def busy_pad_def stick_def busy_stick_def start_def

lemma start_sel:
  "devices (sdl_of (start ds)) = ds"
  "out (start ds) = []"
  "open_calls (sdl_of (start ds)) = []"
  "open_handles (sdl_of (start ds)) = []"
  "last_error (sdl_of (start ds)) = []"
  by (simp_all add: start_def)

lemma start_count: "SDL_NumJoysticks (sdl_of (start ds)) = int (length ds)"
  by (simp add: SDL_NumJoysticks_def start_sel)

lemma device_at_with_device:
  "device_at (sdl_of st) i = Some d \<Longrightarrow> device_at (sdl_of (with_device i d' st)) i = Some d'"
  by (auto simp: device_at_def with_device_def split: if_splits)

lemma call_index_device_call: "call_index (device_call i d) = i"
  by (simp add: device_call_def)

lemma calls_made_indices: "map call_index (calls_made 0 ds) = map int [0..<length ds]"
  by (simp add: calls_made_def o_def call_index_device_call)

lemma reports_split:
  assumes "k < length ds"
  shows "reports 0 ds = reports_before k ds @ device_report (int k) (ds ! k) @ reports (Suc k) ds"
proof -
  have "[0..<length ds] = [0..<k] @ k # [Suc k..<length ds]"
    using assms by (metis less_imp_le_nat upt_add_eq_append upt_conv_Cons le0 le_add_diff_inverse)
  then show ?thesis
    by (simp add: reports_def reports_before_def)
qed

lemma fold_loop_body_devices:
  "devices (sdl_of (fold loop_body js st)) = devices (sdl_of st)"
  by (induction js arbitrary: st) (simp_all add: loop_body_devices)

lemma run_to_devices: "devices (sdl_of (run_to k st)) = devices (sdl_of st)"
  by (simp add: run_to_def fold_loop_body_devices after_summary_sdl)

lemma detect_run_to:
  assumes "k \<le> length (devices (sdl_of st))"
  shows "S2D_DetectControllers st = enumerate_from (int k) (run_to k st)"
proof -
  let ?n = "length (devices (sdl_of st))"
  have split: "[0..<?n] = [0..<k] @ [k..<?n]"
    using assms by (metis le0 le_add_diff_inverse upt_add_eq_append)
  have "S2D_DetectControllers st = fold loop_body (map int [0..<?n]) (after_summary st)"
    using enumerate_from_fold[of 0 "after_summary st"]
    by (simp add: detect_unfold after_summary_sdl)
  also have "\<dots> = fold loop_body (map int [k..<?n]) (run_to k st)"
    by (subst split) (simp add: run_to_def)
  also have "\<dots> = enumerate_from (int k) (run_to k st)"
    using enumerate_from_fold[of k "run_to k st"] assms by (simp add: run_to_devices)
  finally show ?thesis .
qed

lemma detect_continues:
  assumes "device_at (sdl_of st) i = Some d"
  shows "S2D_DetectControllers st
           = enumerate_from (i + 1) (loop_body i (run_to (nat i) st))"
    and "device_at (sdl_of (run_to (nat i) st)) i = Some d"
proof -
  from assms have range: "0 \<le> i" "i < int (length (devices (sdl_of st)))"
    by (auto simp: device_at_def split: if_splits)
  have "device_at (sdl_of (run_to (nat i) st)) i = device_at (sdl_of st) i"
    by (simp add: device_at_def run_to_devices)
  with assms show at: "device_at (sdl_of (run_to (nat i) st)) i = Some d"
    by simp
  have "S2D_DetectControllers st = enumerate_from (int (nat i)) (run_to (nat i) st)"
    using range by (intro detect_run_to) simp
  then have "S2D_DetectControllers st = enumerate_from i (run_to (nat i) st)"
    using range by simp
  then show "S2D_DetectControllers st
           = enumerate_from (i + 1) (loop_body i (run_to (nat i) st))"
    using enumerate_from_at(1)[OF at] by simp
qed

lemma detect_emitted_at:
  assumes "device_at (sdl_of st) i = Some d"
  shows "emitted st (S2D_DetectControllers st)
           = summary (devices (sdl_of st)) @ reports_before (nat i) (devices (sdl_of st))
             @ device_report i d @ reports (Suc (nat i)) (devices (sdl_of st))"
proof -
  from assms have range: "0 \<le> i" "nat i < length (devices (sdl_of st))"
    and d: "devices (sdl_of st) ! nat i = d"
    by (auto simp: device_at_def split: if_splits)
  show ?thesis
    using reports_split[OF range(2)] range(1) d by (simp add: detect_emitted)
qed

lemma with_device_sel:
  "devices (sdl_of (with_device i d' st)) = (devices (sdl_of st))[nat i := d']"
  "out (with_device i d' st) = out st"
  by (simp_all add: with_device_def)

lemma reports_before_update: "reports_before k (ds[k := d']) = reports_before k ds"
proof -
  have "map (\<lambda>j. device_report (int j) (ds[k := d'] ! j)) [0..<k]
          = map (\<lambda>j. device_report (int j) (ds ! j)) [0..<k]"
    by (rule map_cong[OF refl]) simp
  then show ?thesis by (simp only: reports_before_def)
qed

lemma reports_after_update: "reports (Suc k) (ds[k := d']) = reports (Suc k) ds"
proof -
  have "map (\<lambda>j. device_report (int j) (ds[k := d'] ! j)) [Suc k..<length ds]
          = map (\<lambda>j. device_report (int j) (ds ! j)) [Suc k..<length ds]"
    by (rule map_cong[OF refl]) simp
  then show ?thesis by (simp only: reports_def length_list_update)
qed

lemma summary_update: "summary (ds[k := d']) = summary ds"
  by (simp add: summary_def)

lemma detect_emitted_with_device:
  assumes "device_at (sdl_of st) i = Some d"
  shows "emitted (with_device i d' st) (S2D_DetectControllers (with_device i d' st))
           = summary (devices (sdl_of st)) @ reports_before (nat i) (devices (sdl_of st))
             @ device_report i d' @ reports (Suc (nat i)) (devices (sdl_of st))"
  using detect_emitted_at[OF device_at_with_device[OF assms, of d']]
  by (simp add: with_device_sel reports_before_update reports_after_update summary_update)

lemma filter_eq_upt: "k < n \<Longrightarrow> filter (\<lambda>j. int j = int k) [0..<n] = [k]"
proof (induction n)
  case 0
  then show ?case by simp
next
  case (Suc n)
  show ?case
  proof (cases "k = n")
    case True
    have "filter (\<lambda>j. int j = int n) [0..<n] = []"
      by (simp add: filter_empty_conv)
    with True show ?thesis by simp
  next
    case False
    with Suc show ?thesis by simp
  qed
qed

lemma detect_calls_on:
  assumes "device_at (sdl_of st) i = Some d"
  shows "filter (\<lambda>c. call_index c = i) (new_calls st (S2D_DetectControllers st))
           = [device_call i d]"
proof -
  let ?ds = "devices (sdl_of st)"
  from assms have "0 \<le> i" "nat i < length ?ds" "?ds ! nat i = d"
    by (auto simp: device_at_def split: if_splits)
  then obtain k where k: "i = int k" "k < length ?ds" "?ds ! k = d"
    by (metis int_nat_eq)
  have "filter (\<lambda>c. call_index c = int k) (calls_made 0 ?ds)
          = map (\<lambda>j. device_call (int j) (?ds ! j)) (filter (\<lambda>j. int j = int k) [0..<length ?ds])"
    by (simp only: calls_made_def filter_map o_def call_index_device_call)
  also have "\<dots> = [device_call (int k) d]"
    by (simp only: filter_eq_upt[OF k(2)]) (simp add: k(3))
  finally show ?thesis by (simp add: detect_new_calls k(1))
qed

lemma handles_opened_on:
  assumes "k < length ds"
  shows "filter (\<lambda>h. h = device_handle (int k) (ds ! k)) (handles_opened 0 ds)
           = (case open_outcome (ds ! k) of
                None \<Rightarrow> [device_handle (int k) (ds ! k)] | Some e \<Rightarrow> [])"
proof -
  let ?h = "device_handle (int k) (ds ! k)"
  have other: "filter (\<lambda>h. h = ?h) (device_handles (int j) (ds ! j)) = []" if "j \<noteq> k" for j
    using that
    by (auto simp: device_handles_def device_handle_def split: option.splits)
  have own: "filter (\<lambda>h. h = ?h) (device_handles (int k) (ds ! k))
           = (case open_outcome (ds ! k) of None \<Rightarrow> [?h] | Some e \<Rightarrow> [])"
    by (simp add: device_handles_def device_handle_def open_outcome_def split: option.splits)
  have split: "[0..<length ds] = [0..<k] @ k # [Suc k..<length ds]"
    using assms by (metis less_imp_le_nat upt_add_eq_append upt_conv_Cons le0 le_add_diff_inverse)
  have before: "concat (map (\<lambda>j. filter (\<lambda>h. h = ?h) (device_handles (int j) (ds ! j))) [0..<k])
           = []"
    by (simp add: other)
  have after: "concat (map (\<lambda>j. filter (\<lambda>h. h = ?h) (device_handles (int j) (ds ! j)))
                 [Suc k..<length ds]) = []"
    by (simp add: other)
  have "filter (\<lambda>h. h = ?h) (handles_opened 0 ds)
          = concat (map (\<lambda>j. filter (\<lambda>h. h = ?h) (device_handles (int j) (ds ! j)))
              [0..<length ds])"
    by (simp add: handles_opened_def filter_concat o_def)
  also have "\<dots> = filter (\<lambda>h. h = ?h) (device_handles (int k) (ds ! k))"
    by (subst split) (simp add: before after del: upt_Suc)
  finally show ?thesis by (simp only: own)
qed

lemma detect_handle_of:
  assumes "device_at (sdl_of st) i = Some d"
  shows "filter (\<lambda>h. h = device_handle i d) (new_handles st (S2D_DetectControllers st))
           = (case open_outcome d of None \<Rightarrow> [device_handle i d] | Some e \<Rightarrow> [])"
proof -
  let ?ds = "devices (sdl_of st)"
  from assms have "0 \<le> i" "nat i < length ?ds" "?ds ! nat i = d"
    by (auto simp: device_at_def split: if_splits)
  then obtain k where k: "i = int k" "k < length ?ds" "?ds ! k = d"
    by (metis int_nat_eq)
  from handles_opened_on[OF k(2), unfolded k(3)] show ?thesis
    by (simp only: detect_new_handles k(1))
qed

subsection \<open>A controller that fails to open\<close>

text \<open>
  Claim C2. Let the device at index \<open>i\<close> have the controller interface and let its
  controller open fail, the subsystem recording the error text \<open>e\<close>. In a run of
  \<^verbatim>\<open>S2D_DetectControllers\<close> the device is opened once, as a controller, and
  \<^verbatim>\<open>SDL_GetError\<close> returns \<open>e\<close> after that open. What the function writes is the
  summary, the reports of the devices before \<open>i\<close>, then exactly one line for the device,
  at error severity, whose message contains both the index and \<open>e\<close>, and then the
  reports of all the devices after \<open>i\<close>: the run goes on with index \<open>i + 1\<close>. The same
  holds of the iteration alone and of the loop entered at \<open>i\<close>, in any state.
\<close>

theorem controller_open_failure_logged:
  assumes "device_at (sdl_of st) i = Some d"
    and "game_controller d"
    and "controller_fails d = Some e"
  shows "SDL_IsGameController (sdl_of st) i
       \<and> fst (SDL_GameControllerOpen i (sdl_of st)) = None
       \<and> SDL_GetError (snd (SDL_GameControllerOpen i (sdl_of st))) = e
       \<and> out (loop_body i st) = out st @ [Log (controller_error_line i e) S2D_ERROR]
       \<and> sublist (fmt_int i) (controller_error_line i e)
       \<and> sublist e (controller_error_line i e)
       \<and> enumerate_from i st = enumerate_from (i + 1) (loop_body i st)
       \<and> out (enumerate_from i st)
           = out st @ [Log (controller_error_line i e) S2D_ERROR]
               @ reports (Suc (nat i)) (devices (sdl_of st))
       \<and> emitted st (S2D_DetectControllers st)
           = summary (devices (sdl_of st)) @ reports_before (nat i) (devices (sdl_of st))
             @ [Log (controller_error_line i e) S2D_ERROR]
             @ reports (Suc (nat i)) (devices (sdl_of st))
       \<and> S2D_DetectControllers st
           = enumerate_from (i + 1) (loop_body i (run_to (nat i) st))
       \<and> SDL_GetError (snd (SDL_GameControllerOpen i (sdl_of (run_to (nat i) st)))) = e
       \<and> emitted (run_to (nat i) st) (loop_body i (run_to (nat i) st))
           = [Log (controller_error_line i e) S2D_ERROR]
       \<and> filter (\<lambda>c. call_index c = i) (new_calls st (S2D_DetectControllers st))
           = [Open_controller i]"
proof -
  have rep: "device_report i d = [Log (controller_error_line i e) S2D_ERROR]"
    using assms by (simp add: device_report_def)
  have err: "SDL_GetError (snd (SDL_GameControllerOpen i (sdl_of st))) = e"
    using assms by (simp add: SDL_GameControllerOpen_def SDL_GetError_def Let_def)
  have one: "out (loop_body i st) = out st @ [Log (controller_error_line i e) S2D_ERROR]"
    using assms(1) rep by (simp add: loop_body_out)
  have idx: "sublist (fmt_int i) (controller_error_line i e)"
    unfolding controller_error_line_def by (rule sublist_appendI)
  have etext: "sublist e (controller_error_line i e)"
    using sublist_appendI[of e "''Could not open controller #'' @ fmt_int i @ '': ''" "[CHR 0x0A]"]
    by (simp add: controller_error_line_def)
  have isc: "SDL_IsGameController (sdl_of st) i"
    using assms by (simp add: open_results(1))
  have null: "fst (SDL_GameControllerOpen i (sdl_of st)) = None"
    using assms by (simp add: open_results(2))
  note step = enumerate_from_at(1)[OF assms(1)]
  note rest = enumerate_from_at(2)[OF assms(1), unfolded rep]
  note whole = detect_emitted_at[OF assms(1), unfolded rep]
  note goes_on = detect_continues(1)[OF assms(1)]
  note there = detect_continues(2)[OF assms(1)]
  have err_run: "SDL_GetError (snd (SDL_GameControllerOpen i (sdl_of (run_to (nat i) st)))) = e"
    using there assms(2,3) by (simp add: SDL_GameControllerOpen_def SDL_GetError_def Let_def)
  have one_run: "emitted (run_to (nat i) st) (loop_body i (run_to (nat i) st))
           = [Log (controller_error_line i e) S2D_ERROR]"
    using loop_body_emitted[OF there] rep by simp
  have once: "filter (\<lambda>c. call_index c = i) (new_calls st (S2D_DetectControllers st))
           = [Open_controller i]"
    using detect_calls_on[OF assms(1)] assms(2) by (simp add: device_call_def)
  from isc null err one idx etext step rest whole goes_on err_run one_run once
  show ?thesis by (intro conjI)
qed

theorem controller_open_failure_logged_witness:
  "device_at (sdl_of (start [busy_pad, pad])) 0 = Some busy_pad
   \<and> game_controller busy_pad
   \<and> controller_fails busy_pad = Some ''Device busy''
   \<and> out (loop_body 0 (start [busy_pad, pad]))
       = [Log (''Could not open controller #0: Device busy'' @ [CHR 0x0A]) S2D_ERROR]
   \<and> out (enumerate_from 0 (start [busy_pad, pad]))
       = [Log (''Could not open controller #0: Device busy'' @ [CHR 0x0A]) S2D_ERROR,
          Log (''Controller #1: Pad'' @ [CHR 0x0A]) S2D_INFO]
   \<and> emitted (start [busy_pad, pad]) (S2D_DetectControllers (start [busy_pad, pad]))
       = [Log ''Controllers detected: 2'' S2D_INFO,
          Log (''Could not open controller #0: Device busy'' @ [CHR 0x0A]) S2D_ERROR,
          Log (''Controller #1: Pad'' @ [CHR 0x0A]) S2D_INFO]
   \<and> filter (\<lambda>c. call_index c = 0)
         (new_calls (start [busy_pad, pad]) (S2D_DetectControllers (start [busy_pad, pad])))
       = [Open_controller 0]"
proof -
  let ?st = "start [busy_pad, pad]"
  have pre: "device_at (sdl_of ?st) 0 = Some busy_pad" "game_controller busy_pad"
    "controller_fails busy_pad = Some ''Device busy''"
    by (simp_all add: example_defs device_at_def)
  from controller_open_failure_logged[OF pre]
  have one: "out (loop_body 0 ?st) = out ?st @ [Log (controller_error_line 0 ''Device busy'') S2D_ERROR]"
    and rest: "out (enumerate_from 0 ?st)
           = out ?st @ [Log (controller_error_line 0 ''Device busy'') S2D_ERROR]
               @ reports (Suc (nat 0)) (devices (sdl_of ?st))"
    and whole: "emitted ?st (S2D_DetectControllers ?st)
           = summary (devices (sdl_of ?st)) @ reports_before (nat 0) (devices (sdl_of ?st))
             @ [Log (controller_error_line 0 ''Device busy'') S2D_ERROR]
             @ reports (Suc (nat 0)) (devices (sdl_of ?st))"
    and once: "filter (\<lambda>c. call_index c = 0) (new_calls ?st (S2D_DetectControllers ?st))
           = [Open_controller 0]"
    by blast+
  have r1: "out (loop_body 0 ?st)
       = [Log (''Could not open controller #0: Device busy'' @ [CHR 0x0A]) S2D_ERROR]"
    using one by (simp add: start_sel line_defs fmt_int_def dec_nat_digit)
  have r2: "out (enumerate_from 0 ?st)
       = [Log (''Could not open controller #0: Device busy'' @ [CHR 0x0A]) S2D_ERROR,
          Log (''Controller #1: Pad'' @ [CHR 0x0A]) S2D_INFO]"
    using rest
    by (simp add: start_sel line_defs reports_def device_report_def fmt_int_def dec_nat_digit
        pad_def)
  have r3: "emitted ?st (S2D_DetectControllers ?st)
       = [Log ''Controllers detected: 2'' S2D_INFO,
          Log (''Could not open controller #0: Device busy'' @ [CHR 0x0A]) S2D_ERROR,
          Log (''Controller #1: Pad'' @ [CHR 0x0A]) S2D_INFO]"
    using whole
    by (simp add: start_sel line_defs reports_def reports_before_def device_report_def
        summary_def summary_line_def fmt_int_def dec_nat_digit pad_def)
  from pre r1 r2 r3 once show ?thesis by (intro conjI)
qed

subsection \<open>A device without the controller interface\<close>

lemma details_contains:
  "sublist (joystick_name d) (details d)"
  "sublist (fmt_int (num_axes d)) (details d)"
  "sublist (fmt_int (num_buttons d)) (details d)"
  "sublist (fmt_int (num_balls d)) (details d)"
proof -
  show "sublist (joystick_name d) (details d)"
    unfolding details_def by (rule sublist_appendI)
  show "sublist (fmt_int (num_axes d)) (details d)"
    using sublist_appendI[of "fmt_int (num_axes d)"
        "''      Name: '' @ joystick_name d @ [CHR 0x0A] @ ''      Axes: ''"
        "[CHR 0x0A] @ ''      Buttons: '' @ fmt_int (num_buttons d) @ [CHR 0x0A]
         @ ''      Balls: '' @ fmt_int (num_balls d) @ [CHR 0x0A]"]
    by (simp add: details_def)
  show "sublist (fmt_int (num_buttons d)) (details d)"
    using sublist_appendI[of "fmt_int (num_buttons d)"
        "''      Name: '' @ joystick_name d @ [CHR 0x0A] @ ''      Axes: ''
         @ fmt_int (num_axes d) @ [CHR 0x0A] @ ''      Buttons: ''"
        "[CHR 0x0A] @ ''      Balls: '' @ fmt_int (num_balls d) @ [CHR 0x0A]"]
    by (simp add: details_def)
  show "sublist (fmt_int (num_balls d)) (details d)"
    using sublist_appendI[of "fmt_int (num_balls d)"
        "''      Name: '' @ joystick_name d @ [CHR 0x0A] @ ''      Axes: ''
         @ fmt_int (num_axes d) @ [CHR 0x0A] @ ''      Buttons: ''
         @ fmt_int (num_buttons d) @ [CHR 0x0A] @ ''      Balls: ''"
        "[CHR 0x0A]"]
    by (simp add: details_def)
qed

text \<open>
  Claim C3. Let the device at index \<open>i\<close> lack the controller interface. In a run of
  \<^verbatim>\<open>S2D_DetectControllers\<close> the device is opened once, as a raw joystick, and what
  the function writes is the summary, the reports of the devices before \<open>i\<close>, then
  exactly two things for the device, then the reports of the devices after \<open>i\<close>. The
  two things are first the generic-device line at info severity, then either the details
  of the joystick (name, axes, buttons and balls, written with \<^verbatim>\<open>printf\<close>) when
  the joystick open succeeds, or one error line when it fails. So the device gets one
  info line, and the number of its details reports plus the number of its error lines is
  exactly one. The same holds of the iteration alone, in any state.
\<close>

theorem generic_device_report:
  assumes "device_at (sdl_of st) i = Some d"
    and "\<not> game_controller d"
  shows "\<not> SDL_IsGameController (sdl_of st) i
       \<and> fst (SDL_JoystickOpen i (sdl_of st))
           = (case joystick_fails d of None \<Rightarrow> Some (i, d) | Some e \<Rightarrow> None)
       \<and> out (loop_body i st)
           = out st @ [Log (generic_line i) S2D_INFO,
                       (case joystick_fails d of
                          None \<Rightarrow> Stdout (details d)
                        | Some e \<Rightarrow> Log (generic_error_line i) S2D_ERROR)]
       \<and> log_lines S2D_INFO (emitted st (loop_body i st)) = [generic_line i]
       \<and> stdout_texts (emitted st (loop_body i st))
           = (case joystick_fails d of None \<Rightarrow> [details d] | Some e \<Rightarrow> [])
       \<and> log_lines S2D_ERROR (emitted st (loop_body i st))
           = (case joystick_fails d of None \<Rightarrow> [] | Some e \<Rightarrow> [generic_error_line i])
       \<and> length (stdout_texts (emitted st (loop_body i st)))
           + length (log_lines S2D_ERROR (emitted st (loop_body i st))) = 1
       \<and> sublist (joystick_name d) (details d)
       \<and> sublist (fmt_int (num_axes d)) (details d)
       \<and> sublist (fmt_int (num_buttons d)) (details d)
       \<and> sublist (fmt_int (num_balls d)) (details d)
       \<and> emitted st (S2D_DetectControllers st)
           = summary (devices (sdl_of st)) @ reports_before (nat i) (devices (sdl_of st))
             @ [Log (generic_line i) S2D_INFO,
                (case joystick_fails d of
                   None \<Rightarrow> Stdout (details d)
                 | Some e \<Rightarrow> Log (generic_error_line i) S2D_ERROR)]
             @ reports (Suc (nat i)) (devices (sdl_of st))
       \<and> S2D_DetectControllers st
           = enumerate_from (i + 1) (loop_body i (run_to (nat i) st))
       \<and> fst (SDL_JoystickOpen i (sdl_of (run_to (nat i) st)))
           = (case joystick_fails d of None \<Rightarrow> Some (i, d) | Some e \<Rightarrow> None)
       \<and> emitted (run_to (nat i) st) (loop_body i (run_to (nat i) st))
           = [Log (generic_line i) S2D_INFO,
              (case joystick_fails d of
                 None \<Rightarrow> Stdout (details d)
               | Some e \<Rightarrow> Log (generic_error_line i) S2D_ERROR)]
       \<and> filter (\<lambda>c. call_index c = i) (new_calls st (S2D_DetectControllers st))
           = [Open_joystick i]"
proof -
  have opn: "\<not> SDL_IsGameController (sdl_of st) i"
    "fst (SDL_JoystickOpen i (sdl_of st))
           = (case joystick_fails d of None \<Rightarrow> Some (i, d) | Some e \<Rightarrow> None)"
    using assms by (simp_all add: open_results)
  have rep: "device_report i d
           = [Log (generic_line i) S2D_INFO,
              (case joystick_fails d of
                 None \<Rightarrow> Stdout (details d)
               | Some e \<Rightarrow> Log (generic_error_line i) S2D_ERROR)]"
    using assms(2) by (simp add: device_report_def)
  have em: "emitted st (loop_body i st) = device_report i d"
    using assms(1) by (rule loop_body_emitted)
  have outp: "out (loop_body i st) = out st @ device_report i d"
    using assms(1) by (rule loop_body_out)
  have info: "log_lines S2D_INFO (device_report i d) = [generic_line i]"
    by (simp add: rep split: option.splits)
  have so: "stdout_texts (device_report i d)
           = (case joystick_fails d of None \<Rightarrow> [details d] | Some e \<Rightarrow> [])"
    by (simp add: rep split: option.splits)
  have er: "log_lines S2D_ERROR (device_report i d)
           = (case joystick_fails d of None \<Rightarrow> [] | Some e \<Rightarrow> [generic_error_line i])"
    by (simp add: rep split: option.splits)
  have cnt: "length (stdout_texts (device_report i d))
           + length (log_lines S2D_ERROR (device_report i d)) = 1"
    by (simp add: so er split: option.splits)
  have iteration: "\<not> SDL_IsGameController (sdl_of st) i
       \<and> fst (SDL_JoystickOpen i (sdl_of st))
           = (case joystick_fails d of None \<Rightarrow> Some (i, d) | Some e \<Rightarrow> None)
       \<and> out (loop_body i st)
           = out st @ [Log (generic_line i) S2D_INFO,
                       (case joystick_fails d of
                          None \<Rightarrow> Stdout (details d)
                        | Some e \<Rightarrow> Log (generic_error_line i) S2D_ERROR)]
       \<and> log_lines S2D_INFO (emitted st (loop_body i st)) = [generic_line i]
       \<and> stdout_texts (emitted st (loop_body i st))
           = (case joystick_fails d of None \<Rightarrow> [details d] | Some e \<Rightarrow> [])
       \<and> log_lines S2D_ERROR (emitted st (loop_body i st))
           = (case joystick_fails d of None \<Rightarrow> [] | Some e \<Rightarrow> [generic_error_line i])
       \<and> length (stdout_texts (emitted st (loop_body i st)))
           + length (log_lines S2D_ERROR (emitted st (loop_body i st))) = 1
       \<and> sublist (joystick_name d) (details d)
       \<and> sublist (fmt_int (num_axes d)) (details d)
       \<and> sublist (fmt_int (num_buttons d)) (details d)
       \<and> sublist (fmt_int (num_balls d)) (details d)"
    unfolding em outp using opn rep info so er cnt details_contains[of d] by simp
  note whole = detect_emitted_at[OF assms(1), unfolded rep]
  note goes_on = detect_continues(1)[OF assms(1)]
  note there = detect_continues(2)[OF assms(1)]
  have opn_run: "fst (SDL_JoystickOpen i (sdl_of (run_to (nat i) st)))
           = (case joystick_fails d of None \<Rightarrow> Some (i, d) | Some e \<Rightarrow> None)"
    by (rule open_results(3)[OF there])
  have two_run: "emitted (run_to (nat i) st) (loop_body i (run_to (nat i) st))
           = [Log (generic_line i) S2D_INFO,
              (case joystick_fails d of
                 None \<Rightarrow> Stdout (details d)
               | Some e \<Rightarrow> Log (generic_error_line i) S2D_ERROR)]"
    using loop_body_emitted[OF there] rep by simp
  have once: "filter (\<lambda>c. call_index c = i) (new_calls st (S2D_DetectControllers st))
           = [Open_joystick i]"
    using detect_calls_on[OF assms(1)] assms(2) by (simp add: device_call_def)
  from iteration whole goes_on opn_run two_run once
  show ?thesis by blast
qed

theorem generic_device_report_witness:
  "device_at (sdl_of (start [stick, busy_stick])) 0 = Some stick
   \<and> \<not> game_controller stick
   \<and> out (loop_body 0 (start [stick, busy_stick]))
       = [Log ''Generic controller #0'' S2D_INFO,
          Stdout (''      Name: Flight Stick'' @ [CHR 0x0A] @ ''      Axes: 3'' @ [CHR 0x0A]
                  @ ''      Buttons: 12'' @ [CHR 0x0A] @ ''      Balls: 1'' @ [CHR 0x0A])]
   \<and> emitted (start [stick, busy_stick]) (S2D_DetectControllers (start [stick, busy_stick]))
       = [Log ''Controllers detected: 2'' S2D_INFO,
          Log ''Generic controller #0'' S2D_INFO,
          Stdout (''      Name: Flight Stick'' @ [CHR 0x0A] @ ''      Axes: 3'' @ [CHR 0x0A]
                  @ ''      Buttons: 12'' @ [CHR 0x0A] @ ''      Balls: 1'' @ [CHR 0x0A]),
          Log ''Generic controller #1'' S2D_INFO,
          Log ''Could not open generic controller #1'' S2D_ERROR]
   \<and> filter (\<lambda>c. call_index c = 0)
         (new_calls (start [stick, busy_stick])
            (S2D_DetectControllers (start [stick, busy_stick])))
       = [Open_joystick 0]"
proof -
  let ?st = "start [stick, busy_stick]"
  have pre: "device_at (sdl_of ?st) 0 = Some stick" "\<not> game_controller stick"
    by (simp_all add: example_defs device_at_def)
  from generic_device_report[OF pre]
  have one: "out (loop_body 0 ?st)
           = out ?st @ [Log (generic_line 0) S2D_INFO,
                       (case joystick_fails stick of
                          None \<Rightarrow> Stdout (details stick)
                        | Some e \<Rightarrow> Log (generic_error_line 0) S2D_ERROR)]"
    and whole: "emitted ?st (S2D_DetectControllers ?st)
           = summary (devices (sdl_of ?st)) @ reports_before (nat 0) (devices (sdl_of ?st))
             @ [Log (generic_line 0) S2D_INFO,
                (case joystick_fails stick of
                   None \<Rightarrow> Stdout (details stick)
                 | Some e \<Rightarrow> Log (generic_error_line 0) S2D_ERROR)]
             @ reports (Suc (nat 0)) (devices (sdl_of ?st))"
    and once: "filter (\<lambda>c. call_index c = 0) (new_calls ?st (S2D_DetectControllers ?st))
           = [Open_joystick 0]"
    by blast+
  have twelve: "dec_nat 12 = ''12''" by (simp add: dec_nat.simps)
  have r1: "out (loop_body 0 ?st)
       = [Log ''Generic controller #0'' S2D_INFO,
          Stdout (''      Name: Flight Stick'' @ [CHR 0x0A] @ ''      Axes: 3'' @ [CHR 0x0A]
                  @ ''      Buttons: 12'' @ [CHR 0x0A] @ ''      Balls: 1'' @ [CHR 0x0A])]"
    using one twelve by (simp add: start_sel line_defs fmt_int_def dec_nat_digit stick_def)
  have r2: "emitted ?st (S2D_DetectControllers ?st)
       = [Log ''Controllers detected: 2'' S2D_INFO,
          Log ''Generic controller #0'' S2D_INFO,
          Stdout (''      Name: Flight Stick'' @ [CHR 0x0A] @ ''      Axes: 3'' @ [CHR 0x0A]
                  @ ''      Buttons: 12'' @ [CHR 0x0A] @ ''      Balls: 1'' @ [CHR 0x0A]),
          Log ''Generic controller #1'' S2D_INFO,
          Log ''Could not open generic controller #1'' S2D_ERROR]"
    using whole twelve
    by (simp add: start_sel line_defs reports_def reports_before_def device_report_def
        summary_def summary_line_def fmt_int_def dec_nat_digit stick_def busy_stick_def)
  from pre r1 r2 once show ?thesis by (intro conjI)
qed

subsection \<open>A joystick that fails to open\<close>

text \<open>
  Claim C9. Let the device at index \<open>i\<close> lack the controller interface and let its
  joystick open fail, the subsystem recording the error text \<open>e\<close>. In a run of
  \<^verbatim>\<open>S2D_DetectControllers\<close> the function writes for this device its generic line
  and one error line, between the reports of the devices before and after it. The error
  line is the fixed text \<^verbatim>\<open>Could not open generic controller #\<close> followed by the
  index and nothing else: it contains the index, it has no place for the error text, and
  the function writes the same whatever error text the open fails with. Put in its place
  a device with the controller interface whose open fails with the error text \<open>e'\<close>:
  the function then writes for it one error line that does contain \<open>e'\<close>.
\<close>

theorem generic_open_failure_line:
  assumes "device_at (sdl_of st) i = Some d"
    and "\<not> game_controller d"
    and "joystick_fails d = Some e"
  shows "\<not> SDL_IsGameController (sdl_of st) i
       \<and> fst (SDL_JoystickOpen i (sdl_of st)) = None
       \<and> SDL_GetError (snd (SDL_JoystickOpen i (sdl_of st))) = e
       \<and> log_lines S2D_ERROR (emitted st (loop_body i st)) = [generic_error_line i]
       \<and> generic_error_line i = ''Could not open generic controller #'' @ fmt_int i
       \<and> sublist (fmt_int i) (generic_error_line i)
       \<and> emitted (with_device i (d\<lparr>joystick_fails := Some e'\<rparr>) st)
            (loop_body i (with_device i (d\<lparr>joystick_fails := Some e'\<rparr>) st))
           = emitted st (loop_body i st)
       \<and> controller_error_line i e
           = ''Could not open controller #'' @ fmt_int i @ '': '' @ e @ [CHR 0x0A]
       \<and> sublist e (controller_error_line i e)
       \<and> emitted st (S2D_DetectControllers st)
           = summary (devices (sdl_of st)) @ reports_before (nat i) (devices (sdl_of st))
             @ [Log (generic_line i) S2D_INFO, Log (generic_error_line i) S2D_ERROR]
             @ reports (Suc (nat i)) (devices (sdl_of st))
       \<and> SDL_GetError (snd (SDL_JoystickOpen i (sdl_of (run_to (nat i) st)))) = e
       \<and> emitted (with_device i (d\<lparr>joystick_fails := Some e'\<rparr>) st)
            (S2D_DetectControllers (with_device i (d\<lparr>joystick_fails := Some e'\<rparr>) st))
           = emitted st (S2D_DetectControllers st)
       \<and> SDL_GetError (snd (SDL_GameControllerOpen i
            (sdl_of (with_device i (d\<lparr>game_controller := True, controller_fails := Some e'\<rparr>) st))))
           = e'
       \<and> emitted (with_device i (d\<lparr>game_controller := True, controller_fails := Some e'\<rparr>) st)
            (loop_body i
               (with_device i (d\<lparr>game_controller := True, controller_fails := Some e'\<rparr>) st))
           = [Log (controller_error_line i e') S2D_ERROR]
       \<and> emitted (with_device i (d\<lparr>game_controller := True, controller_fails := Some e'\<rparr>) st)
            (S2D_DetectControllers
               (with_device i (d\<lparr>game_controller := True, controller_fails := Some e'\<rparr>) st))
           = summary (devices (sdl_of st)) @ reports_before (nat i) (devices (sdl_of st))
             @ [Log (controller_error_line i e') S2D_ERROR]
             @ reports (Suc (nat i)) (devices (sdl_of st))
       \<and> sublist e' (controller_error_line i e')"
proof -
  let ?j = "d\<lparr>joystick_fails := Some e'\<rparr>"
  let ?c = "d\<lparr>game_controller := True, controller_fails := Some e'\<rparr>"
  have err: "SDL_GetError (snd (SDL_JoystickOpen i (sdl_of st))) = e"
    using assms by (simp add: SDL_JoystickOpen_def SDL_GetError_def Let_def)
  have rep: "device_report i d
           = [Log (generic_line i) S2D_INFO, Log (generic_error_line i) S2D_ERROR]"
    using assms by (simp add: device_report_def)
  have rep': "device_report i ?j = device_report i d"
    using assms by (simp add: device_report_def)
  have repc: "device_report i ?c = [Log (controller_error_line i e') S2D_ERROR]"
    by (simp add: device_report_def)
  have em: "emitted st (loop_body i st) = device_report i d"
    using assms(1) by (rule loop_body_emitted)
  have em': "emitted (with_device i ?j st) (loop_body i (with_device i ?j st))
           = device_report i ?j"
    using assms(1) by (intro loop_body_emitted device_at_with_device)
  have idx: "sublist (fmt_int i) (generic_error_line i)"
    using sublist_appendI[of "fmt_int i" "''Could not open generic controller #''" "[]"]
    by (simp add: generic_error_line_def)
  have etext: "sublist e (controller_error_line i e)"
    using sublist_appendI[of e "''Could not open controller #'' @ fmt_int i @ '': ''" "[CHR 0x0A]"]
    by (simp add: controller_error_line_def)
  have etext': "sublist e' (controller_error_line i e')"
    using sublist_appendI[of e' "''Could not open controller #'' @ fmt_int i @ '': ''" "[CHR 0x0A]"]
    by (simp add: controller_error_line_def)
  have calls: "\<not> SDL_IsGameController (sdl_of st) i"
    "fst (SDL_JoystickOpen i (sdl_of st)) = None"
    using assms by (simp_all add: open_results)
  have iteration: "\<not> SDL_IsGameController (sdl_of st) i
       \<and> fst (SDL_JoystickOpen i (sdl_of st)) = None
       \<and> SDL_GetError (snd (SDL_JoystickOpen i (sdl_of st))) = e
       \<and> log_lines S2D_ERROR (emitted st (loop_body i st)) = [generic_error_line i]
       \<and> generic_error_line i = ''Could not open generic controller #'' @ fmt_int i
       \<and> sublist (fmt_int i) (generic_error_line i)
       \<and> emitted (with_device i ?j st) (loop_body i (with_device i ?j st))
           = emitted st (loop_body i st)
       \<and> controller_error_line i e
           = ''Could not open controller #'' @ fmt_int i @ '': '' @ e @ [CHR 0x0A]
       \<and> sublist e (controller_error_line i e)"
    unfolding em em' rep' using calls err idx etext
    by (simp add: rep generic_error_line_def controller_error_line_def)
  note whole = detect_emitted_at[OF assms(1), unfolded rep]
  note there = detect_continues(2)[OF assms(1)]
  have err_run: "SDL_GetError (snd (SDL_JoystickOpen i (sdl_of (run_to (nat i) st)))) = e"
    using there assms(2,3) by (simp add: SDL_JoystickOpen_def SDL_GetError_def Let_def)
  have same: "emitted (with_device i ?j st) (S2D_DetectControllers (with_device i ?j st))
           = emitted st (S2D_DetectControllers st)"
    by (simp only: detect_emitted_with_device[OF assms(1)] rep' detect_emitted_at[OF assms(1)])
  note atc = device_at_with_device[OF assms(1), of ?c]
  have errc: "SDL_GetError (snd (SDL_GameControllerOpen i (sdl_of (with_device i ?c st)))) = e'"
    using atc by (simp add: SDL_GameControllerOpen_def SDL_GetError_def Let_def)
  have onec: "emitted (with_device i ?c st) (loop_body i (with_device i ?c st))
           = [Log (controller_error_line i e') S2D_ERROR]"
    using loop_body_emitted[OF atc] repc by simp
  note wholec = detect_emitted_with_device[OF assms(1), of ?c, unfolded repc]
  from iteration whole err_run same errc onec wholec etext'
  show ?thesis by blast
qed

theorem generic_open_failure_line_witness:
  "device_at (sdl_of (start [busy_stick])) 0 = Some busy_stick
   \<and> \<not> game_controller busy_stick
   \<and> joystick_fails busy_stick = Some ''Device busy''
   \<and> SDL_GetError (snd (SDL_JoystickOpen 0 (sdl_of (start [busy_stick])))) = ''Device busy''
   \<and> log_lines S2D_ERROR (emitted (start [busy_stick]) (loop_body 0 (start [busy_stick])))
       = [''Could not open generic controller #0'']
   \<and> \<not> sublist ''Device busy'' ''Could not open generic controller #0''
   \<and> emitted (start [busy_stick]) (S2D_DetectControllers (start [busy_stick]))
       = [Log ''Controllers detected: 1'' S2D_INFO,
          Log ''Generic controller #0'' S2D_INFO,
          Log ''Could not open generic controller #0'' S2D_ERROR]
   \<and> emitted
        (with_device 0 (busy_stick\<lparr>game_controller := True, controller_fails := Some ''No mapping''\<rparr>)
           (start [busy_stick]))
        (S2D_DetectControllers
           (with_device 0 (busy_stick\<lparr>game_controller := True, controller_fails := Some ''No mapping''\<rparr>)
              (start [busy_stick])))
       = [Log ''Controllers detected: 1'' S2D_INFO,
          Log (''Could not open controller #0: No mapping'' @ [CHR 0x0A]) S2D_ERROR]"
proof -
  let ?st = "start [busy_stick]"
  let ?c = "busy_stick\<lparr>game_controller := True, controller_fails := Some ''No mapping''\<rparr>"
  have pre: "device_at (sdl_of ?st) 0 = Some busy_stick" "\<not> game_controller busy_stick"
    "joystick_fails busy_stick = Some ''Device busy''"
    by (simp_all add: example_defs device_at_def)
  from generic_open_failure_line[OF pre, of "''No mapping''"]
  have err: "SDL_GetError (snd (SDL_JoystickOpen 0 (sdl_of ?st))) = ''Device busy''"
    and line: "log_lines S2D_ERROR (emitted ?st (loop_body 0 ?st)) = [generic_error_line 0]"
    and whole: "emitted ?st (S2D_DetectControllers ?st)
           = summary (devices (sdl_of ?st)) @ reports_before (nat 0) (devices (sdl_of ?st))
             @ [Log (generic_line 0) S2D_INFO, Log (generic_error_line 0) S2D_ERROR]
             @ reports (Suc (nat 0)) (devices (sdl_of ?st))"
    and wholec: "emitted (with_device 0 ?c ?st) (S2D_DetectControllers (with_device 0 ?c ?st))
           = summary (devices (sdl_of ?st)) @ reports_before (nat 0) (devices (sdl_of ?st))
             @ [Log (controller_error_line 0 ''No mapping'') S2D_ERROR]
             @ reports (Suc (nat 0)) (devices (sdl_of ?st))"
    by blast+
  have absent: "\<not> sublist ''Device busy'' ''Could not open generic controller #0''"
    by (simp add: sublist_Cons_right)
  have r1: "log_lines S2D_ERROR (emitted ?st (loop_body 0 ?st))
       = [''Could not open generic controller #0'']"
    using line by (simp add: generic_error_line_def fmt_int_def dec_nat_digit)
  have r2: "emitted ?st (S2D_DetectControllers ?st)
       = [Log ''Controllers detected: 1'' S2D_INFO,
          Log ''Generic controller #0'' S2D_INFO,
          Log ''Could not open generic controller #0'' S2D_ERROR]"
    using whole
    by (simp add: start_sel line_defs reports_def reports_before_def summary_def
        summary_line_def fmt_int_def dec_nat_digit)
  have r3: "emitted (with_device 0 ?c ?st) (S2D_DetectControllers (with_device 0 ?c ?st))
       = [Log ''Controllers detected: 1'' S2D_INFO,
          Log (''Could not open controller #0: No mapping'' @ [CHR 0x0A]) S2D_ERROR]"
    using wholec
    by (simp add: start_sel line_defs reports_def reports_before_def summary_def
        summary_line_def fmt_int_def dec_nat_digit)
  from pre err r1 absent r2 r3 show ?thesis by (intro conjI)
qed

subsection \<open>The two outcomes of a device\<close>

lemma loop_body_last_error:
  "device_at (sdl_of st) i = Some d \<Longrightarrow>
   last_error (sdl_of (loop_body i st))
     = (case open_outcome d of None \<Rightarrow> last_error (sdl_of st) | Some e \<Rightarrow> e)"
  by (simp add: body_defs open_outcome_def split: option.splits)

text \<open>
  Claim C6 says that a failed open is reported with the subsystem's error text. A raw
  joystick whose open fails is not: here the subsystem's error text is
  \<^verbatim>\<open>Device busy\<close>, and the one error line written does not contain it.
\<close>

theorem error_text_counterexample:
  "device_at (sdl_of (start [busy_stick])) 0 = Some busy_stick
   \<and> \<not> game_controller busy_stick
   \<and> joystick_fails busy_stick = Some ''Device busy''
   \<and> SDL_GetError (sdl_of (S2D_DetectControllers (start [busy_stick]))) = ''Device busy''
   \<and> out (S2D_DetectControllers (start [busy_stick]))
       = [Log ''Controllers detected: 1'' S2D_INFO,
          Log ''Generic controller #0'' S2D_INFO,
          Log ''Could not open generic controller #0'' S2D_ERROR]
   \<and> \<not> sublist ''Device busy'' ''Could not open generic controller #0''"
proof -
  let ?st = "start [busy_stick]"
  have pre: "device_at (sdl_of ?st) 0 = Some busy_stick"
    by (simp add: example_defs device_at_def)
  have "S2D_DetectControllers ?st = loop_body 0 (after_summary ?st)"
    using enumerate_from_fold[of 0 "after_summary ?st"]
    by (simp add: detect_unfold after_summary_sdl start_def)
  then have "last_error (sdl_of (S2D_DetectControllers ?st)) = ''Device busy''"
    using loop_body_last_error[of "after_summary ?st" 0 busy_stick] pre
    by (simp add: after_summary_sdl open_outcome_def busy_stick_def stick_def)
  moreover have "out (S2D_DetectControllers ?st)
       = [Log ''Controllers detected: 1'' S2D_INFO,
          Log ''Generic controller #0'' S2D_INFO,
          Log ''Could not open generic controller #0'' S2D_ERROR]"
    by (simp add: detect_out summary_def summary_line_def reports_def device_report_def
        line_defs fmt_int_def dec_nat_digit example_defs)
  moreover have "\<not> sublist ''Device busy'' ''Could not open generic controller #0''"
    by (simp add: sublist_Cons_right)
  ultimately show ?thesis
    using pre by (simp add: SDL_GetError_def busy_stick_def stick_def)
qed

text \<open>
  Claim C6, amended. In a run of \<^verbatim>\<open>S2D_DetectControllers\<close> exactly one open call is
  made for every device, in the order of the indices, and none is repeated. When the
  open of a device succeeds, the handle joins the open handles, the error text stays as
  it was and no error line is written: a controller is reported by one info line with its
  name, a generic device by its info line followed by the details written with
  \<^verbatim>\<open>printf\<close>. When the open fails with the error text \<open>e\<close>, no handle is added,
  \<^verbatim>\<open>SDL_GetError\<close> returns \<open>e\<close>, and exactly one error line is written: with the
  index and \<open>e\<close> for a controller, with the index alone for a generic device, after its
  info line. A failure is not propagated: the function returns no value, the run goes on
  with the next index whatever the outcome, and putting any other device at index \<open>i\<close>,
  one that opens or one that fails, changes nothing in the open calls made and nothing in
  what is written for the other devices.
\<close>

theorem device_outcome:
  assumes "device_at (sdl_of st) i = Some d"
  shows "(if SDL_IsGameController (sdl_of st) i
          then fst (SDL_GameControllerOpen i (sdl_of st))
          else fst (SDL_JoystickOpen i (sdl_of st)))
           = (case open_outcome d of None \<Rightarrow> Some (i, d) | Some e \<Rightarrow> None)
       \<and> open_calls (sdl_of (loop_body i st)) = open_calls (sdl_of st) @ [device_call i d]
       \<and> enumerate_from i st = enumerate_from (i + 1) (loop_body i st)
       \<and> (case open_outcome d of
             None \<Rightarrow>
               open_handles (sdl_of (loop_body i st))
                 = open_handles (sdl_of st) @ [device_handle i d]
               \<and> SDL_GetError (sdl_of (loop_body i st)) = SDL_GetError (sdl_of st)
               \<and> emitted st (loop_body i st)
                   = (if game_controller d then [Log (controller_line i d) S2D_INFO]
                      else [Log (generic_line i) S2D_INFO, Stdout (details d)])
           | Some e \<Rightarrow>
               open_handles (sdl_of (loop_body i st)) = open_handles (sdl_of st)
               \<and> SDL_GetError (sdl_of (loop_body i st)) = e
               \<and> emitted st (loop_body i st)
                   = (if game_controller d then [Log (controller_error_line i e) S2D_ERROR]
                      else [Log (generic_line i) S2D_INFO,
                            Log (generic_error_line i) S2D_ERROR]))
       \<and> filter (\<lambda>c. call_index c = i) (new_calls st (S2D_DetectControllers st))
           = [device_call i d]
       \<and> map call_index (new_calls st (S2D_DetectControllers st))
           = map int [0..<length (devices (sdl_of st))]
       \<and> emitted st (S2D_DetectControllers st)
           = summary (devices (sdl_of st)) @ reports_before (nat i) (devices (sdl_of st))
             @ (case open_outcome d of
                  None \<Rightarrow>
                    (if game_controller d then [Log (controller_line i d) S2D_INFO]
                     else [Log (generic_line i) S2D_INFO, Stdout (details d)])
                | Some e \<Rightarrow>
                    (if game_controller d then [Log (controller_error_line i e) S2D_ERROR]
                     else [Log (generic_line i) S2D_INFO,
                           Log (generic_error_line i) S2D_ERROR]))
             @ reports (Suc (nat i)) (devices (sdl_of st))
       \<and> filter (\<lambda>h. h = device_handle i d) (new_handles st (S2D_DetectControllers st))
           = (case open_outcome d of None \<Rightarrow> [device_handle i d] | Some e \<Rightarrow> [])
       \<and> S2D_DetectControllers st
           = enumerate_from (i + 1) (loop_body i (run_to (nat i) st))
       \<and> map call_index
            (new_calls (with_device i d' st) (S2D_DetectControllers (with_device i d' st)))
           = map int [0..<length (devices (sdl_of st))]
       \<and> emitted (with_device i d' st) (S2D_DetectControllers (with_device i d' st))
           = summary (devices (sdl_of st)) @ reports_before (nat i) (devices (sdl_of st))
             @ device_report i d'
             @ reports (Suc (nat i)) (devices (sdl_of st))"
proof -
  note calls = loop_body_calls[OF assms]
  note step = enumerate_from_at(1)[OF assms]
  note em = loop_body_emitted[OF assms]
  note hs = loop_body_handles[OF assms]
  note le = loop_body_last_error[OF assms]
  have res: "(if SDL_IsGameController (sdl_of st) i
          then fst (SDL_GameControllerOpen i (sdl_of st))
          else fst (SDL_JoystickOpen i (sdl_of st)))
           = (case open_outcome d of None \<Rightarrow> Some (i, d) | Some e \<Rightarrow> None)"
    by (simp add: open_results[OF assms] open_outcome_def)
  have rest: "open_calls (sdl_of (loop_body i st)) = open_calls (sdl_of st) @ [device_call i d]
       \<and> enumerate_from i st = enumerate_from (i + 1) (loop_body i st)
       \<and> (case open_outcome d of
             None \<Rightarrow>
               open_handles (sdl_of (loop_body i st))
                 = open_handles (sdl_of st) @ [device_handle i d]
               \<and> SDL_GetError (sdl_of (loop_body i st)) = SDL_GetError (sdl_of st)
               \<and> emitted st (loop_body i st)
                   = (if game_controller d then [Log (controller_line i d) S2D_INFO]
                      else [Log (generic_line i) S2D_INFO, Stdout (details d)])
           | Some e \<Rightarrow>
               open_handles (sdl_of (loop_body i st)) = open_handles (sdl_of st)
               \<and> SDL_GetError (sdl_of (loop_body i st)) = e
               \<and> emitted st (loop_body i st)
                   = (if game_controller d then [Log (controller_error_line i e) S2D_ERROR]
                      else [Log (generic_line i) S2D_INFO,
                            Log (generic_error_line i) S2D_ERROR]))"
    unfolding em hs SDL_GetError_def le using calls step
    by (simp add: open_outcome_def device_handles_def device_handle_def device_report_def
        split: option.splits)
  note once = detect_calls_on[OF assms]
  have every: "map call_index (new_calls st (S2D_DetectControllers st))
           = map int [0..<length (devices (sdl_of st))]"
    by (simp only: detect_new_calls calls_made_indices)
  have rep: "device_report i d
           = (case open_outcome d of
                  None \<Rightarrow>
                    (if game_controller d then [Log (controller_line i d) S2D_INFO]
                     else [Log (generic_line i) S2D_INFO, Stdout (details d)])
                | Some e \<Rightarrow>
                    (if game_controller d then [Log (controller_error_line i e) S2D_ERROR]
                     else [Log (generic_line i) S2D_INFO,
                           Log (generic_error_line i) S2D_ERROR]))"
    by (simp add: device_report_def open_outcome_def split: option.splits)
  note whole = detect_emitted_at[OF assms, unfolded rep]
  note kept = detect_handle_of[OF assms]
  note goes_on = detect_continues(1)[OF assms]
  have every': "map call_index
            (new_calls (with_device i d' st) (S2D_DetectControllers (with_device i d' st)))
           = map int [0..<length (devices (sdl_of st))]"
    by (simp only: detect_new_calls calls_made_indices with_device_sel length_list_update)
  note whole' = detect_emitted_with_device[OF assms, of d']
  from res rest once every whole kept goes_on every' whole'
  show ?thesis by blast
qed

theorem device_outcome_witness:
  "device_at (sdl_of (start [pad, busy_stick])) 1 = Some busy_stick
   \<and> open_outcome busy_stick = Some ''Device busy''
   \<and> open_calls (sdl_of (loop_body 1 (start [pad, busy_stick]))) = [Open_joystick 1]
   \<and> open_handles (sdl_of (loop_body 1 (start [pad, busy_stick]))) = []
   \<and> SDL_GetError (sdl_of (loop_body 1 (start [pad, busy_stick]))) = ''Device busy''
   \<and> emitted (start [pad, busy_stick]) (loop_body 1 (start [pad, busy_stick]))
       = [Log ''Generic controller #1'' S2D_INFO,
          Log ''Could not open generic controller #1'' S2D_ERROR]
   \<and> filter (\<lambda>c. call_index c = 1)
         (new_calls (start [pad, busy_stick]) (S2D_DetectControllers (start [pad, busy_stick])))
       = [Open_joystick 1]
   \<and> map call_index
         (new_calls (start [pad, busy_stick]) (S2D_DetectControllers (start [pad, busy_stick])))
       = [0, 1]
   \<and> emitted (start [pad, busy_stick]) (S2D_DetectControllers (start [pad, busy_stick]))
       = [Log ''Controllers detected: 2'' S2D_INFO,
          Log (''Controller #0: Pad'' @ [CHR 0x0A]) S2D_INFO,
          Log ''Generic controller #1'' S2D_INFO,
          Log ''Could not open generic controller #1'' S2D_ERROR]"
proof -
  let ?st = "start [pad, busy_stick]"
  have pre: "device_at (sdl_of ?st) 1 = Some busy_stick"
    by (simp add: example_defs device_at_def)
  have oc: "open_outcome busy_stick = Some ''Device busy''"
    by (simp add: open_outcome_def example_defs)
  have gen: "\<not> game_controller busy_stick"
    by (simp add: example_defs)
  note inst = device_outcome[OF pre, of busy_stick, unfolded oc option.case]
  from inst have calls: "open_calls (sdl_of (loop_body 1 ?st))
           = open_calls (sdl_of ?st) @ [device_call 1 busy_stick]"
    and hs: "open_handles (sdl_of (loop_body 1 ?st)) = open_handles (sdl_of ?st)"
    and err: "SDL_GetError (sdl_of (loop_body 1 ?st)) = ''Device busy''"
    and em: "emitted ?st (loop_body 1 ?st)
           = (if game_controller busy_stick
              then [Log (controller_error_line 1 ''Device busy'') S2D_ERROR]
              else [Log (generic_line 1) S2D_INFO, Log (generic_error_line 1) S2D_ERROR])"
    and once: "filter (\<lambda>c. call_index c = 1) (new_calls ?st (S2D_DetectControllers ?st))
           = [device_call 1 busy_stick]"
    and every: "map call_index (new_calls ?st (S2D_DetectControllers ?st))
           = map int [0..<length (devices (sdl_of ?st))]"
    and whole: "emitted ?st (S2D_DetectControllers ?st)
           = summary (devices (sdl_of ?st)) @ reports_before (nat 1) (devices (sdl_of ?st))
             @ (if game_controller busy_stick
                then [Log (controller_error_line 1 ''Device busy'') S2D_ERROR]
                else [Log (generic_line 1) S2D_INFO, Log (generic_error_line 1) S2D_ERROR])
             @ reports (Suc (nat 1)) (devices (sdl_of ?st))"
    by blast+
  have r1: "open_calls (sdl_of (loop_body 1 ?st)) = [Open_joystick 1]"
    using calls gen by (simp add: start_sel device_call_def)
  have r2: "open_handles (sdl_of (loop_body 1 ?st)) = []"
    using hs by (simp add: start_sel)
  have r3: "emitted ?st (loop_body 1 ?st)
       = [Log ''Generic controller #1'' S2D_INFO,
          Log ''Could not open generic controller #1'' S2D_ERROR]"
    using em gen by (simp add: line_defs fmt_int_def dec_nat_digit)
  have r4: "filter (\<lambda>c. call_index c = 1) (new_calls ?st (S2D_DetectControllers ?st))
       = [Open_joystick 1]"
    using once gen by (simp add: device_call_def)
  have r5: "map call_index (new_calls ?st (S2D_DetectControllers ?st)) = [0, 1]"
    using every by (simp add: start_sel upt_conv_Cons)
  have r6: "emitted ?st (S2D_DetectControllers ?st)
       = [Log ''Controllers detected: 2'' S2D_INFO,
          Log (''Controller #0: Pad'' @ [CHR 0x0A]) S2D_INFO,
          Log ''Generic controller #1'' S2D_INFO,
          Log ''Could not open generic controller #1'' S2D_ERROR]"
    using whole gen
    by (simp add: start_sel line_defs reports_def reports_before_def device_report_def
        summary_def summary_line_def fmt_int_def dec_nat_digit pad_def)
  from pre oc r1 r2 err r3 r4 r5 r6 show ?thesis by (intro conjI)
qed

subsection \<open>Where the output goes\<close>

lemma stdout_texts_device_report:
  "stdout_texts (device_report i d) = (if joystick_opens d then [details d] else [])"
  by (simp add: device_report_def joystick_opens_def split: option.splits)

lemma concat_map_if: "concat (map (\<lambda>x. if P x then [f x] else []) xs) = map f (filter P xs)"
  by (induction xs) simp_all

lemma map_index: "map (\<lambda>j. f (ds ! j)) [0..<length ds] = map f ds"
  by (rule nth_equalityI) simp_all

lemma stdout_texts_reports:
  "stdout_texts (reports 0 ds) = map details (filter joystick_opens ds)"
proof -
  have "stdout_texts (reports 0 ds)
        = concat (map (\<lambda>j. if joystick_opens (ds ! j) then [details (ds ! j)] else [])
            [0..<length ds])"
    by (simp add: reports_def stdout_texts_concat o_def stdout_texts_device_report)
  also have "\<dots> = concat (map (\<lambda>d. if joystick_opens d then [details d] else []) ds)"
    using map_index[of "\<lambda>d. if joystick_opens d then [details d] else []" ds] by simp
  finally show ?thesis by (simp add: concat_map_if)
qed

lemma events_partition:
  "length (log_lines S2D_INFO evs) + length (log_lines S2D_ERROR evs)
     + length (stdout_texts evs) = length evs"
proof (induction evs)
  case Nil
  then show ?case by simp
next
  case (Cons ev evs)
  then show ?case
  proof (cases ev)
    case (Log m t)
    with Cons show ?thesis by (cases t) simp_all
  next
    case (Stdout x)
    with Cons show ?thesis by simp
  qed
qed

text \<open>
  Claim C7 says that nothing is written outside the logging sink. With one raw joystick
  that opens, the third thing the function writes is the details report, and it is
  written with \<^verbatim>\<open>printf\<close>, not handed to \<^verbatim>\<open>S2D_Log\<close>.
\<close>

theorem printf_counterexample:
  "out (S2D_DetectControllers (start [stick]))
     = [Log ''Controllers detected: 1'' S2D_INFO,
        Log ''Generic controller #0'' S2D_INFO,
        Stdout (''      Name: Flight Stick'' @ [CHR 0x0A] @ ''      Axes: 3'' @ [CHR 0x0A]
                @ ''      Buttons: 12'' @ [CHR 0x0A] @ ''      Balls: 1'' @ [CHR 0x0A])]
   \<and> length (stdout_texts (out (S2D_DetectControllers (start [stick])))) = 1"
proof -
  have "dec_nat 12 = ''12''" by (simp add: dec_nat.simps)
  then have "out (S2D_DetectControllers (start [stick]))
     = [Log ''Controllers detected: 1'' S2D_INFO,
        Log ''Generic controller #0'' S2D_INFO,
        Stdout (''      Name: Flight Stick'' @ [CHR 0x0A] @ ''      Axes: 3'' @ [CHR 0x0A]
                @ ''      Buttons: 12'' @ [CHR 0x0A] @ ''      Balls: 1'' @ [CHR 0x0A])]"
    by (simp add: detect_out summary_def summary_line_def reports_def device_report_def
        line_defs fmt_int_def dec_nat_digit example_defs)
  then show ?thesis by simp
qed

text \<open>
  Claim C7, amended. Everything the function writes is either a line handed to the
  logging sink with a message and a severity, info or error, or the details report of a
  generic device whose joystick open succeeds, which is written to standard output with
  \<^verbatim>\<open>printf\<close> and not through the sink. There is exactly one such report for each
  such device, in the order of the devices, and the function returns no value: its only
  trace is what it adds to the output.
\<close>

theorem output_channels:
  "stdout_texts (emitted st (S2D_DetectControllers st))
     = map details (filter joystick_opens (devices (sdl_of st)))
   \<and> length (log_lines S2D_INFO (emitted st (S2D_DetectControllers st)))
       + length (log_lines S2D_ERROR (emitted st (S2D_DetectControllers st)))
       + length (stdout_texts (emitted st (S2D_DetectControllers st)))
       = length (emitted st (S2D_DetectControllers st))
   \<and> out (S2D_DetectControllers st) = out st @ emitted st (S2D_DetectControllers st)"
proof -
  have "stdout_texts (summary (devices (sdl_of st))) = []"
    by (simp add: summary_def)
  then have "stdout_texts (emitted st (S2D_DetectControllers st))
     = map details (filter joystick_opens (devices (sdl_of st)))"
    by (simp add: detect_emitted stdout_texts_append stdout_texts_reports)
  moreover have "out (S2D_DetectControllers st) = out st @ emitted st (S2D_DetectControllers st)"
    by (simp add: detect_emitted detect_out)
  ultimately show ?thesis
    using events_partition[of "emitted st (S2D_DetectControllers st)"] by simp
qed

subsection \<open>Controllers that all open\<close>

lemma controller_line_name: "sublist (controller_name d) (controller_line i d)"
  using sublist_appendI[of "controller_name d" "''Controller #'' @ fmt_int i @ '': ''" "[CHR 0x0A]"]
  by (simp add: controller_line_def)

lemma reports_all_controllers:
  assumes "list_all opens_as_controller ds"
  shows "reports 0 ds = map (\<lambda>j. Log (controller_line (int j) (ds ! j)) S2D_INFO) [0..<length ds]"
proof -
  have "\<And>j. j < length ds \<Longrightarrow>
          device_report (int j) (ds ! j) = [Log (controller_line (int j) (ds ! j)) S2D_INFO]"
    using assms by (simp add: list_all_length opens_as_controller_def device_report_def)
  then have eq: "map (\<lambda>j. device_report (int j) (ds ! j)) [0..<length ds]
           = map (\<lambda>j. [Log (controller_line (int j) (ds ! j)) S2D_INFO]) [0..<length ds]"
    by simp
  show ?thesis
    unfolding reports_def eq by simp
qed

lemma log_lines_map_Log: "log_lines t (map (\<lambda>j. Log (f j) t) js) = map f js"
  by (induction js) simp_all

lemma log_lines_map_other: "t' \<noteq> t \<Longrightarrow> log_lines t (map (\<lambda>j. Log (f j) t') js) = []"
  by (induction js) simp_all

lemma stdout_texts_map_Log: "stdout_texts (map (\<lambda>j. Log (f j) t) js) = []"
  by (induction js) simp_all

text \<open>
  Claim C1 says that with \<open>N\<close> devices, all controllers that open, exactly \<open>N\<close> info
  lines are written. With one such device the function writes two info lines: the
  summary and the line of the device.
\<close>

theorem summary_line_counterexample:
  "list_all opens_as_controller (devices (sdl_of (start [pad])))
   \<and> length (devices (sdl_of (start [pad]))) = 1
   \<and> log_lines S2D_INFO (emitted (start [pad]) (S2D_DetectControllers (start [pad])))
       = [''Controllers detected: 1'', ''Controller #0: Pad'' @ [CHR 0x0A]]
   \<and> length (log_lines S2D_INFO (emitted (start [pad]) (S2D_DetectControllers (start [pad]))))
       = 2"
  by (simp add: detect_emitted summary_def summary_line_def reports_def device_report_def
      line_defs fmt_int_def dec_nat_digit example_defs opens_as_controller_def)

text \<open>
  Claim C1, amended. Let every device have the controller interface and every controller
  open succeed, and let \<open>N\<close> be the number of devices. The loop over the devices writes
  exactly \<open>N\<close> info lines and nothing else, one per device in the order of the indices,
  the line of device \<open>j\<close> containing the name the device declares. The function as a
  whole writes one more info line before them when \<open>N > 0\<close>, the summary, so
  \<open>N + 1\<close> info lines in all; it writes no error line and nothing with
  \<^verbatim>\<open>printf\<close>.
\<close>

theorem controllers_all_open:
  assumes "list_all opens_as_controller (devices (sdl_of st))"
  shows "emitted st (enumerate_from 0 st)
           = map (\<lambda>j. Log (controller_line (int j) (devices (sdl_of st) ! j)) S2D_INFO)
               [0..<length (devices (sdl_of st))]
       \<and> length (log_lines S2D_INFO (emitted st (enumerate_from 0 st)))
           = length (devices (sdl_of st))
       \<and> (\<forall>j<length (devices (sdl_of st)).
             log_lines S2D_INFO (emitted st (enumerate_from 0 st)) ! j
               = controller_line (int j) (devices (sdl_of st) ! j)
             \<and> sublist (controller_name (devices (sdl_of st) ! j))
                 (controller_line (int j) (devices (sdl_of st) ! j)))
       \<and> log_lines S2D_INFO (emitted st (S2D_DetectControllers st))
           = (if 0 < length (devices (sdl_of st))
              then [summary_line (int (length (devices (sdl_of st))))] else [])
             @ map (\<lambda>j. controller_line (int j) (devices (sdl_of st) ! j))
                 [0..<length (devices (sdl_of st))]
       \<and> log_lines S2D_ERROR (emitted st (S2D_DetectControllers st)) = []
       \<and> stdout_texts (emitted st (S2D_DetectControllers st)) = []"
proof -
  let ?ds = "devices (sdl_of st)"
  let ?lines = "map (\<lambda>j. Log (controller_line (int j) (?ds ! j)) S2D_INFO) [0..<length ?ds]"
  note reps = reports_all_controllers[OF assms]
  have loop: "emitted st (enumerate_from 0 st) = ?lines"
    using enumerate_from_out[of 0 st] by (simp add: emitted_def reps)
  have info: "log_lines S2D_INFO ?lines
           = map (\<lambda>j. controller_line (int j) (?ds ! j)) [0..<length ?ds]"
    by (rule log_lines_map_Log)
  have err: "log_lines S2D_ERROR ?lines = []"
    by (rule log_lines_map_other) simp
  have so: "stdout_texts ?lines = []"
    by (rule stdout_texts_map_Log)
  have whole: "emitted st (S2D_DetectControllers st) = summary ?ds @ ?lines"
    by (simp add: detect_emitted reps)
  have c1: "length (log_lines S2D_INFO (emitted st (enumerate_from 0 st))) = length ?ds"
    by (simp add: loop info)
  have c2: "\<forall>j<length ?ds.
             log_lines S2D_INFO (emitted st (enumerate_from 0 st)) ! j
               = controller_line (int j) (?ds ! j)
             \<and> sublist (controller_name (?ds ! j)) (controller_line (int j) (?ds ! j))"
    by (simp add: loop info controller_line_name)
  have c3: "log_lines S2D_INFO (emitted st (S2D_DetectControllers st))
           = (if 0 < length ?ds then [summary_line (int (length ?ds))] else [])
             @ map (\<lambda>j. controller_line (int j) (?ds ! j)) [0..<length ?ds]"
    by (simp add: whole log_lines_append info summary_def)
  have c4: "log_lines S2D_ERROR (emitted st (S2D_DetectControllers st)) = []"
    by (simp add: whole log_lines_append err summary_def)
  have c5: "stdout_texts (emitted st (S2D_DetectControllers st)) = []"
    by (simp add: whole stdout_texts_append so summary_def)
  from loop c1 c2 c3 c4 c5 show ?thesis by blast
qed

theorem controllers_all_open_witness:
  "list_all opens_as_controller (devices (sdl_of (start [pad, pad2])))
   \<and> emitted (start [pad, pad2]) (enumerate_from 0 (start [pad, pad2]))
       = [Log (''Controller #0: Pad'' @ [CHR 0x0A]) S2D_INFO,
          Log (''Controller #1: Arcade Stick'' @ [CHR 0x0A]) S2D_INFO]
   \<and> log_lines S2D_INFO (emitted (start [pad, pad2]) (S2D_DetectControllers (start [pad, pad2])))
       = [''Controllers detected: 2'', ''Controller #0: Pad'' @ [CHR 0x0A],
          ''Controller #1: Arcade Stick'' @ [CHR 0x0A]]"
proof -
  let ?st = "start [pad, pad2]"
  have pre: "list_all opens_as_controller (devices (sdl_of ?st))"
    by (simp add: start_sel opens_as_controller_def pad_def pad2_def)
  from controllers_all_open[OF pre]
  have "emitted ?st (enumerate_from 0 ?st)
           = map (\<lambda>j. Log (controller_line (int j) (devices (sdl_of ?st) ! j)) S2D_INFO)
               [0..<length (devices (sdl_of ?st))]"
    and "log_lines S2D_INFO (emitted ?st (S2D_DetectControllers ?st))
           = (if 0 < length (devices (sdl_of ?st))
              then [summary_line (int (length (devices (sdl_of ?st))))] else [])
             @ map (\<lambda>j. controller_line (int j) (devices (sdl_of ?st) ! j))
                 [0..<length (devices (sdl_of ?st))]"
    by blast+
  then have "emitted ?st (enumerate_from 0 ?st)
       = [Log (''Controller #0: Pad'' @ [CHR 0x0A]) S2D_INFO,
          Log (''Controller #1: Arcade Stick'' @ [CHR 0x0A]) S2D_INFO]"
    and "log_lines S2D_INFO (emitted ?st (S2D_DetectControllers ?st))
       = [''Controllers detected: 2'', ''Controller #0: Pad'' @ [CHR 0x0A],
          ''Controller #1: Arcade Stick'' @ [CHR 0x0A]]"
    by (simp_all add: start_sel summary_line_def controller_line_def fmt_int_def dec_nat_digit
        upt_conv_Cons pad_def pad2_def)
  with pre show ?thesis by blast
qed

subsection \<open>The summary line\<close>

lemma report_has_no_summary:
  "filter (prefix ''Controllers detected'') (log_lines t (device_report i d)) = []"
  by (cases t) (simp_all add: device_report_def line_defs split: option.splits)

lemma reports_have_no_summary:
  "filter (prefix ''Controllers detected'') (log_lines t (reports k ds)) = []"
  by (simp add: reports_def log_lines_concat filter_concat o_def report_has_no_summary)

lemma summary_line_count: "sublist (fmt_int n) (summary_line n)"
  using sublist_appendI[of "fmt_int n" "''Controllers detected: ''" "[]"]
  by (simp add: summary_line_def)

text \<open>
  Claim C4. With no device the function changes nothing: it writes neither the summary
  nor any line of a device. In general what it writes is the summary, when the count is
  greater than zero, followed by the reports of the devices. No line of a device, at
  either severity, starts with \<^verbatim>\<open>Controllers detected\<close>, so the function writes
  such a line exactly when the count is greater than zero, once, at info severity, and
  the line then contains the count.
\<close>

theorem summary_iff_devices:
  "(SDL_NumJoysticks (sdl_of st) = 0 \<longrightarrow> S2D_DetectControllers st = st)
   \<and> emitted st (S2D_DetectControllers st)
       = (if 0 < SDL_NumJoysticks (sdl_of st)
          then [Log (summary_line (SDL_NumJoysticks (sdl_of st))) S2D_INFO] else [])
         @ reports 0 (devices (sdl_of st))
   \<and> filter (prefix ''Controllers detected'') (log_lines t (reports 0 (devices (sdl_of st)))) = []
   \<and> filter (prefix ''Controllers detected'')
         (log_lines S2D_INFO (emitted st (S2D_DetectControllers st)))
       = (if 0 < SDL_NumJoysticks (sdl_of st)
          then [summary_line (SDL_NumJoysticks (sdl_of st))] else [])
   \<and> filter (prefix ''Controllers detected'')
         (log_lines S2D_ERROR (emitted st (S2D_DetectControllers st))) = []
   \<and> summary_line (SDL_NumJoysticks (sdl_of st))
       = ''Controllers detected: '' @ fmt_int (SDL_NumJoysticks (sdl_of st))
   \<and> sublist (fmt_int (SDL_NumJoysticks (sdl_of st)))
        (summary_line (SDL_NumJoysticks (sdl_of st)))"
proof -
  let ?n = "SDL_NumJoysticks (sdl_of st)"
  let ?ds = "devices (sdl_of st)"
  have zero: "?n = 0 \<longrightarrow> S2D_DetectControllers st = st"
    by (simp add: S2D_DetectControllers_def enumerate_from.simps[of 0 st])
  have sm: "summary ?ds = (if 0 < ?n then [Log (summary_line ?n) S2D_INFO] else [])"
    by (simp add: summary_def SDL_NumJoysticks_def)
  have em: "emitted st (S2D_DetectControllers st)
       = (if 0 < ?n then [Log (summary_line ?n) S2D_INFO] else []) @ reports 0 ?ds"
    by (simp only: detect_emitted sm)
  have none: "filter (prefix ''Controllers detected'') (log_lines t (reports 0 ?ds)) = []"
    by (rule reports_have_no_summary)
  have info: "filter (prefix ''Controllers detected'')
         (log_lines S2D_INFO (emitted st (S2D_DetectControllers st)))
       = (if 0 < ?n then [summary_line ?n] else [])"
    by (simp add: em log_lines_append reports_have_no_summary summary_line_def)
  have err: "filter (prefix ''Controllers detected'')
         (log_lines S2D_ERROR (emitted st (S2D_DetectControllers st))) = []"
    by (simp add: em log_lines_append reports_have_no_summary)
  have txt1: "summary_line ?n = ''Controllers detected: '' @ fmt_int ?n"
    by (simp add: summary_line_def)
  from zero em none info err txt1 summary_line_count[of ?n] show ?thesis by blast
qed

theorem summary_iff_devices_witness:
  "SDL_NumJoysticks (sdl_of (start [])) = 0
   \<and> S2D_DetectControllers (start []) = start []
   \<and> emitted (start []) (S2D_DetectControllers (start [])) = []
   \<and> SDL_NumJoysticks (sdl_of (start [busy_pad])) = 1
   \<and> emitted (start [busy_pad]) (S2D_DetectControllers (start [busy_pad]))
       = [Log ''Controllers detected: 1'' S2D_INFO,
          Log (''Could not open controller #0: Device busy'' @ [CHR 0x0A]) S2D_ERROR]"
proof -
  have n0: "SDL_NumJoysticks (sdl_of (start [])) = 0"
    by (simp add: start_count)
  have n1: "SDL_NumJoysticks (sdl_of (start [busy_pad])) = 1"
    by (simp add: start_count)
  from summary_iff_devices[of "start []"] n0
  have same: "S2D_DetectControllers (start []) = start []"
    by blast
  have quiet: "emitted (start []) (S2D_DetectControllers (start [])) = []"
    by (simp add: same emitted_def)
  from summary_iff_devices[of "start [busy_pad]"]
  have "emitted (start [busy_pad]) (S2D_DetectControllers (start [busy_pad]))
       = (if 0 < SDL_NumJoysticks (sdl_of (start [busy_pad]))
          then [Log (summary_line (SDL_NumJoysticks (sdl_of (start [busy_pad])))) S2D_INFO]
          else [])
         @ reports 0 (devices (sdl_of (start [busy_pad])))"
    by blast
  then have "emitted (start [busy_pad]) (S2D_DetectControllers (start [busy_pad]))
       = [Log ''Controllers detected: 1'' S2D_INFO,
          Log (''Could not open controller #0: Device busy'' @ [CHR 0x0A]) S2D_ERROR]"
    by (simp add: start_count start_sel summary_line_def reports_def device_report_def line_defs
        fmt_int_def dec_nat_digit busy_pad_def pad_def)
  with n0 n1 same quiet show ?thesis by (intro conjI)
qed

subsection \<open>Order and determinism\<close>

text \<open>
  Claim C5. The function is one pass of the loop body over the indices
  \<open>0, 1, \<dots>, count - 1\<close> in this order, started after the summary: the open calls it
  makes are on exactly these indices, ascending, and what it writes is the summary
  followed by the reports of the devices in the order of the indices. The run is
  determined by the device list: two runs on the same devices write the same, make the
  same open calls and open the same handles, whatever the earlier output, the contents of
  the message buffer, the last error and the handles already open are.
\<close>

theorem ascending_order_deterministic:
  assumes "devices (sdl_of st') = devices (sdl_of st)"
  shows "S2D_DetectControllers st
           = fold loop_body (map int [0..<length (devices (sdl_of st))]) (after_summary st)
       \<and> map call_index (new_calls st (S2D_DetectControllers st))
           = map int [0..<length (devices (sdl_of st))]
       \<and> emitted st (S2D_DetectControllers st)
           = summary (devices (sdl_of st))
             @ concat (map (\<lambda>j. device_report (int j) (devices (sdl_of st) ! j))
                 [0..<length (devices (sdl_of st))])
       \<and> emitted st' (S2D_DetectControllers st') = emitted st (S2D_DetectControllers st)
       \<and> new_calls st' (S2D_DetectControllers st') = new_calls st (S2D_DetectControllers st)
       \<and> new_handles st' (S2D_DetectControllers st')
           = new_handles st (S2D_DetectControllers st)"
proof -
  have pass: "S2D_DetectControllers st
           = fold loop_body (map int [0..<length (devices (sdl_of st))]) (after_summary st)"
    using enumerate_from_fold[of 0 "after_summary st"]
    by (simp add: detect_unfold after_summary_sdl)
  have rest: "map call_index (new_calls st (S2D_DetectControllers st))
           = map int [0..<length (devices (sdl_of st))]
       \<and> emitted st (S2D_DetectControllers st)
           = summary (devices (sdl_of st))
             @ concat (map (\<lambda>j. device_report (int j) (devices (sdl_of st) ! j))
                 [0..<length (devices (sdl_of st))])
       \<and> emitted st' (S2D_DetectControllers st') = emitted st (S2D_DetectControllers st)
       \<and> new_calls st' (S2D_DetectControllers st') = new_calls st (S2D_DetectControllers st)
       \<and> new_handles st' (S2D_DetectControllers st')
           = new_handles st (S2D_DetectControllers st)"
    using assms
    by (simp add: detect_new_calls detect_new_handles detect_emitted calls_made_indices
        reports_def)
  from pass rest show ?thesis by (rule conjI)
qed

theorem ascending_order_deterministic_witness:
  "devices (sdl_of ((start [stick, pad])\<lparr>sdl_of := (sdl_of (start [stick, pad]))\<lparr>last_error := ''old''\<rparr>,
         S2D_msg := ''stale'', out := [Stdout ''earlier'']\<rparr>))
     = devices (sdl_of (start [stick, pad]))
   \<and> map call_index (new_calls (start [stick, pad]) (S2D_DetectControllers (start [stick, pad])))
       = [0, 1]
   \<and> emitted ((start [stick, pad])\<lparr>sdl_of := (sdl_of (start [stick, pad]))\<lparr>last_error := ''old''\<rparr>,
         S2D_msg := ''stale'', out := [Stdout ''earlier'']\<rparr>)
        (S2D_DetectControllers
           ((start [stick, pad])\<lparr>sdl_of := (sdl_of (start [stick, pad]))\<lparr>last_error := ''old''\<rparr>,
         S2D_msg := ''stale'', out := [Stdout ''earlier'']\<rparr>))
       = emitted (start [stick, pad]) (S2D_DetectControllers (start [stick, pad]))"
proof -
  let ?st = "start [stick, pad]"
  let ?st' = "?st\<lparr>sdl_of := (sdl_of (start [stick, pad]))\<lparr>last_error := ''old''\<rparr>,
         S2D_msg := ''stale'', out := [Stdout ''earlier'']\<rparr>"
  have pre: "devices (sdl_of ?st') = devices (sdl_of ?st)" by simp
  from ascending_order_deterministic[OF pre]
  have "map call_index (new_calls ?st (S2D_DetectControllers ?st))
           = map int [0..<length (devices (sdl_of ?st))]"
    and same: "emitted ?st' (S2D_DetectControllers ?st') = emitted ?st (S2D_DetectControllers ?st)"
    by blast+
  then have "map call_index (new_calls ?st (S2D_DetectControllers ?st)) = [0, 1]"
    by (simp add: start_sel upt_conv_Cons)
  with pre same show ?thesis by (intro conjI)
qed

subsection \<open>Handles stay open\<close>

lemma loop_body_handles_prefix:
  "prefix (open_handles (sdl_of st)) (open_handles (sdl_of (loop_body i st)))"
  by (simp add: body_defs split: option.splits)

lemma enumerate_from_handles_prefix:
  "prefix (open_handles (sdl_of st)) (open_handles (sdl_of (enumerate_from i st)))"
proof (induction i st rule: enumerate_from.induct)
  case (1 i st)
  show ?case
  proof (cases "i < SDL_NumJoysticks (sdl_of st)")
    case True
    have "prefix (open_handles (sdl_of st)) (open_handles (sdl_of (loop_body i st)))"
      by (rule loop_body_handles_prefix)
    also have "prefix \<dots> (open_handles (sdl_of (enumerate_from (i + 1) (loop_body i st))))"
      using True by (rule "1.IH")
    finally show ?thesis
      using True by (subst enumerate_from.simps) simp
  next
    case False
    then show ?thesis by (subst enumerate_from.simps) simp
  qed
qed

text \<open>
  Claim C8. No step of the function closes a handle: the handles open before an
  iteration, and before the loop from any index, are still open after it, in the same
  order, with the new ones after them. At the return the open handles are those that
  were open at the call followed by one handle for every device whose open succeeded, so
  every controller and every joystick the function has opened is still open when it
  returns.
\<close>

theorem handles_never_closed:
  "prefix (open_handles (sdl_of st)) (open_handles (sdl_of (loop_body i st)))
   \<and> prefix (open_handles (sdl_of st)) (open_handles (sdl_of (enumerate_from i st)))
   \<and> open_handles (sdl_of (S2D_DetectControllers st))
       = open_handles (sdl_of st) @ handles_opened 0 (devices (sdl_of st))
   \<and> set (open_handles (sdl_of st)) \<subseteq> set (open_handles (sdl_of (S2D_DetectControllers st)))
   \<and> (\<forall>j<length (devices (sdl_of st)).
         (opens_as_controller (devices (sdl_of st) ! j) \<longrightarrow>
            Controller_handle (int j, devices (sdl_of st) ! j)
              \<in> set (open_handles (sdl_of (S2D_DetectControllers st))))
         \<and> (joystick_opens (devices (sdl_of st) ! j) \<longrightarrow>
            Joystick_handle (int j, devices (sdl_of st) ! j)
              \<in> set (open_handles (sdl_of (S2D_DetectControllers st)))))"
proof -
  let ?ds = "devices (sdl_of st)"
  note final = detect_handles[of st]
  have grows: "set (open_handles (sdl_of st))
                 \<subseteq> set (open_handles (sdl_of (S2D_DetectControllers st)))"
    by (simp add: final)
  have kept: "\<forall>j<length ?ds.
         (opens_as_controller (?ds ! j) \<longrightarrow>
            Controller_handle (int j, ?ds ! j)
              \<in> set (open_handles (sdl_of (S2D_DetectControllers st))))
         \<and> (joystick_opens (?ds ! j) \<longrightarrow>
            Joystick_handle (int j, ?ds ! j)
              \<in> set (open_handles (sdl_of (S2D_DetectControllers st))))"
  proof (intro allI impI)
    fix j assume j: "j < length ?ds"
    then have "set (device_handles (int j) (?ds ! j)) \<subseteq> set (handles_opened 0 ?ds)"
      by (auto simp: handles_opened_def)
    then show "(opens_as_controller (?ds ! j) \<longrightarrow>
            Controller_handle (int j, ?ds ! j)
              \<in> set (open_handles (sdl_of (S2D_DetectControllers st))))
         \<and> (joystick_opens (?ds ! j) \<longrightarrow>
            Joystick_handle (int j, ?ds ! j)
              \<in> set (open_handles (sdl_of (S2D_DetectControllers st))))"
      by (auto simp: final device_handles_def opens_as_controller_def joystick_opens_def)
  qed
  from loop_body_handles_prefix[of st i] enumerate_from_handles_prefix[of st i] final grows kept
  show ?thesis by (intro conjI)
qed

theorem handles_never_closed_witness:
  "opens_as_controller ([pad, stick] ! 0)
   \<and> joystick_opens ([pad, stick] ! 1)
   \<and> open_handles (sdl_of (S2D_DetectControllers (start [pad, stick])))
       = [Controller_handle (0, pad), Joystick_handle (1, stick)]
   \<and> Controller_handle (0, pad)
       \<in> set (open_handles (sdl_of (S2D_DetectControllers (start [pad, stick]))))
   \<and> Joystick_handle (1, stick)
       \<in> set (open_handles (sdl_of (S2D_DetectControllers (start [pad, stick]))))"
proof -
  let ?st = "start [pad, stick]"
  have c: "opens_as_controller ([pad, stick] ! 0)"
    by (simp add: opens_as_controller_def pad_def)
  have j: "joystick_opens ([pad, stick] ! 1)"
    by (simp add: joystick_opens_def stick_def)
  note inst = handles_never_closed[of ?st 0, unfolded start_sel]
  from inst have all: "open_handles (sdl_of (S2D_DetectControllers ?st))
       = [] @ handles_opened 0 [pad, stick]"
    by blast
  have "handles_opened 0 [pad, stick] = [Controller_handle (0, pad), Joystick_handle (1, stick)]"
    by (simp add: handles_opened_def device_handles_def upt_conv_Cons pad_def stick_def)
  with all have final: "open_handles (sdl_of (S2D_DetectControllers ?st))
       = [Controller_handle (0, pad), Joystick_handle (1, stick)]"
    by simp
  from inst c have m0: "Controller_handle (0, pad)
       \<in> set (open_handles (sdl_of (S2D_DetectControllers ?st)))"
    by force
  from inst j have m1: "Joystick_handle (1, stick)
       \<in> set (open_handles (sdl_of (S2D_DetectControllers ?st)))"
    by force
  from c j final m0 m1 show ?thesis by (intro conjI)
qed

subsection \<open>Termination\<close>

lemma loop_body_one_call:
  "length (new_calls st (loop_body i st)) = 1"
  by (simp add: new_calls_def body_defs split: option.splits)

lemma loop_body_writes_little:
  "1 \<le> length (emitted st (loop_body i st)) \<and> length (emitted st (loop_body i st)) \<le> 2"
  by (simp add: emitted_def body_defs split: option.splits)

lemma device_report_length: "length (device_report i d) \<le> 2"
  by (simp add: device_report_def split: option.splits)

lemma reports_length_aux:
  "length (concat (map (\<lambda>j. device_report (int j) (ds ! j)) js)) \<le> 2 * length js"
proof (induction js)
  case Nil
  then show ?case by simp
next
  case (Cons j js)
  then show ?case
    using device_report_length[of "int j" "ds ! j"] by simp
qed

lemma reports_length: "length (reports 0 ds) \<le> 2 * length ds"
  using reports_length_aux[of ds "[0..<length ds]"] by (simp add: reports_def)

text \<open>
  Claim C10. The loop is a total function: its recursion is well-founded because an
  iteration leaves the device count as it is while the index grows. Its value, and the
  value of the whole function, is reached by running the loop body once for each index
  \<open>0, \<dots>, count - 1\<close>, which is \<open>count\<close> iterations. One iteration makes one open
  call and writes at most two things; a whole run makes \<open>count\<close> open calls and writes
  at most \<open>1 + 2 * count\<close> things.
\<close>

theorem loop_runs_count_times:
  "enumerate_from 0 st
     = fold loop_body (map int [0..<nat (SDL_NumJoysticks (sdl_of st))]) st
   \<and> length (map int [0..<nat (SDL_NumJoysticks (sdl_of st))])
       = nat (SDL_NumJoysticks (sdl_of st))
   \<and> S2D_DetectControllers st
       = fold loop_body (map int [0..<nat (SDL_NumJoysticks (sdl_of st))]) (after_summary st)
   \<and> SDL_NumJoysticks (sdl_of (loop_body i st)) = SDL_NumJoysticks (sdl_of st)
   \<and> SDL_NumJoysticks (sdl_of (S2D_DetectControllers st)) = SDL_NumJoysticks (sdl_of st)
   \<and> length (new_calls st (loop_body i st)) = 1
   \<and> length (emitted st (loop_body i st)) \<le> 2
   \<and> length (new_calls st (S2D_DetectControllers st)) = nat (SDL_NumJoysticks (sdl_of st))
   \<and> length (emitted st (S2D_DetectControllers st))
       \<le> 1 + 2 * nat (SDL_NumJoysticks (sdl_of st))"
proof -
  let ?ds = "devices (sdl_of st)"
  have n: "nat (SDL_NumJoysticks (sdl_of st)) = length ?ds"
    by (simp add: SDL_NumJoysticks_def)
  have loop: "enumerate_from 0 st = fold loop_body (map int [0..<length ?ds]) st"
    using enumerate_from_fold[of 0 st] by simp
  have whole: "S2D_DetectControllers st
       = fold loop_body (map int [0..<length ?ds]) (after_summary st)"
    using enumerate_from_fold[of 0 "after_summary st"]
    by (simp add: detect_unfold after_summary_sdl)
  have fixed: "SDL_NumJoysticks (sdl_of (loop_body i st)) = SDL_NumJoysticks (sdl_of st)"
    by (simp add: SDL_NumJoysticks_def loop_body_devices)
  have calls: "length (new_calls st (S2D_DetectControllers st)) = length ?ds"
    by (simp add: detect_new_calls calls_made_def)
  have "length (summary ?ds) \<le> 1"
    by (simp add: summary_def)
  then have written: "length (emitted st (S2D_DetectControllers st)) \<le> 1 + 2 * length ?ds"
    using reports_length[of ?ds] by (simp add: detect_emitted)
  have len: "length (map int [0..<length ?ds]) = length ?ds" by simp
  have fixed': "SDL_NumJoysticks (sdl_of (S2D_DetectControllers st))
                 = SDL_NumJoysticks (sdl_of st)"
    by (simp add: SDL_NumJoysticks_def detect_devices)
  from loop len whole fixed fixed' loop_body_one_call[of st i]
    loop_body_writes_little[of st i] calls written
  show ?thesis unfolding n by (intro conjI) simp_all
qed

end
